theory Spec2Isabelle
  imports Complex_Main "HOL-Library.Sublist"
begin

section \<open>RideConnect backend: data model\<close>

text \<open>
  The documents of \<^verbatim>\<open>backend/server.py\<close>. Every Mongo collection holds
  dictionaries whose keys are those of the pydantic models; a document is a record
  with one field per key. Field names carry a one-letter prefix for the collection,
  because several documents share the keys \<^verbatim>\<open>user_id\<close>, \<^verbatim>\<open>status\<close>
  and \<^verbatim>\<open>created_at\<close>.

  A Python \<^verbatim>\<open>datetime\<close> is its wall-clock reading, in microseconds since
  1970-01-01T00:00:00 on the same wall clock, together with its \<^verbatim>\<open>tzinfo\<close>:
  \<open>None\<close> for a naive value, otherwise the UTC offset in microseconds. \<^verbatim>\<open>datetime.now(timezone.utc)\<close> reads the clock; the reading is
  an argument of every operation that asks for it.
\<close>

record datetime =
  wall :: int
  tzinfo :: "int option"

record user =
  u_user_id :: string
  u_email :: "string option"
  u_phone :: "string option"
  u_name :: string
  u_profile_picture :: "string option"
  u_bio :: "string option"
  u_profile_type :: string
  u_is_public :: bool
  u_auth_type :: string
  u_created_at :: datetime

record password_doc =
  p_user_id :: string
  p_password_hash :: string

record session =
  s_user_id :: string
  s_session_token :: string
  s_expires_at :: datetime
  s_created_at :: datetime

record follow =
  f_follow_id :: string
  f_follower_id :: string
  f_following_id :: string
  f_status :: string
  f_created_at :: datetime

record ride =
  r_ride_id :: string
  r_user_id :: string
  r_origin :: string
  r_destination :: string
  r_date_time :: datetime
  r_available_seats :: int
  r_price :: "real option"
  r_car_details :: "string option"
  r_preferences :: "string option"
  r_ride_type :: string
  r_status :: string
  r_created_at :: datetime

record ride_request =
  q_request_id :: string
  q_ride_id :: string
  q_requester_id :: string
  q_status :: string
  q_message :: "string option"
  q_created_at :: datetime

text \<open>The request bodies \<^verbatim>\<open>UserLogin\<close>, \<^verbatim>\<open>RideUpdate\<close> and
  \<^verbatim>\<open>RideRequestCreate\<close>.\<close>

record user_login =
  l_email :: "string option"
  l_phone :: "string option"
  l_password :: string

record ride_update =
  ru_origin :: "string option"
  ru_destination :: "string option"
  ru_date_time :: "datetime option"
  ru_available_seats :: "int option"
  ru_price :: "real option"
  ru_car_details :: "string option"
  ru_preferences :: "string option"
  ru_status :: "string option"

record ride_request_create =
  rc_ride_id :: string
  rc_message :: "string option"

text \<open>The database \<^verbatim>\<open>db\<close>: one list of documents per collection, in insertion
  order. Nothing in the store keeps an identifier unique, so a list it is.\<close>

record db =
  users :: "user list"
  user_passwords :: "password_doc list"
  user_sessions :: "session list"
  follows :: "follow list"
  rides :: "ride list"
  ride_requests :: "ride_request list"

text \<open>The part of a Starlette \<^verbatim>\<open>Request\<close> the handlers read: the cookies and the
  headers, by name.\<close>

record request =
  cookies :: "string \<rightharpoonup> string"
  headers :: "string \<rightharpoonup> string"

text \<open>\<^verbatim>\<open>HTTPException(status_code, detail)\<close>. Status 500 stands for an exception
  that is not an \<^verbatim>\<open>HTTPException\<close> (FastAPI answers it with 500).\<close>

datatype http_error = HTTPException int string

text \<open>What \<^verbatim>\<open>get_user\<close> returns: the whole \<^verbatim>\<open>UserBase\<close>, or the dictionary
  of six keys built for a private profile.\<close>

record limited_profile =
  lp_user_id :: string
  lp_name :: string
  lp_profile_picture :: "string option"
  lp_profile_type :: string
  lp_is_public :: bool
  lp_is_private :: bool

datatype profile_view = Full user | Limited limited_profile

text \<open>The dictionaries \<^verbatim>\<open>{"message": ..., "status": ...}\<close> of \<^verbatim>\<open>follow_user\<close> and
  \<^verbatim>\<open>{"user_id": ..., "session_token": ..., "name": ...}\<close> of \<^verbatim>\<open>login\<close>.\<close>

record follow_result =
  fr_message :: string
  fr_status :: string

record login_result =
  lr_user_id :: string
  lr_session_token :: string
  lr_name :: string

section \<open>The document store\<close>

text \<open>\<^verbatim>\<open>find_one(filter)\<close> returns the first document the filter matches, or
  \<^verbatim>\<open>None\<close>.\<close>

definition find_one :: "('a \<Rightarrow> bool) \<Rightarrow> 'a list \<Rightarrow> 'a option" where
  "find_one P xs = List.find P xs"

text \<open>\<^verbatim>\<open>update_one(filter, update)\<close> changes the first document the filter matches
  and no other.\<close>

fun update_one :: "('a \<Rightarrow> bool) \<Rightarrow> ('a \<Rightarrow> 'a) \<Rightarrow> 'a list \<Rightarrow> 'a list" where
  "update_one P f [] = []"
| "update_one P f (x # xs) = (if P x then f x # xs else x # update_one P f xs)"

text \<open>\<^verbatim>\<open>delete_one(filter)\<close> removes the first document the filter matches; the
  first component is \<^verbatim>\<open>deleted_count\<close>.\<close>

fun delete_one :: "('a \<Rightarrow> bool) \<Rightarrow> 'a list \<Rightarrow> nat \<times> 'a list" where
  "delete_one P [] = (0, [])"
| "delete_one P (x # xs) =
     (if P x then (1, xs) else (let (n, ys) = delete_one P xs in (n, x # ys)))"

definition insert_one :: "'a \<Rightarrow> 'a list \<Rightarrow> 'a list" where
  "insert_one d xs = xs @ [d]"

section \<open>Python helpers\<close>

text \<open>Truthiness of an optional string: \<^verbatim>\<open>None\<close> and the empty string are false.\<close>

definition truthy :: "string option \<Rightarrow> bool" where
  "truthy v = (case v of None \<Rightarrow> False | Some s \<Rightarrow> s \<noteq> [])"

text \<open>\<^verbatim>\<open>s.replace(old, "")\<close>: every occurrence of \<open>old\<close> is removed, scanning from
  the left.\<close>

function remove_all :: "string \<Rightarrow> string \<Rightarrow> string" where
  "remove_all old [] = []"
| "remove_all old (c # cs) =
     (if old \<noteq> [] \<and> prefix old (c # cs)
      then remove_all old (drop (length old) (c # cs))
      else c # remove_all old cs)"
  by pat_completeness auto
termination
  by (relation "measure (\<lambda>(old, s). length s)") auto

text \<open>The instant an aware datetime denotes. A naive datetime is compared only after
  it was given \<^verbatim>\<open>tzinfo=timezone.utc\<close>.\<close>

definition utc_instant :: "datetime \<Rightarrow> int" where
  "utc_instant d = wall d - (case tzinfo d of None \<Rightarrow> 0 | Some off \<Rightarrow> off)"

definition utc_now :: "int \<Rightarrow> datetime" where
  "utc_now now = \<lparr>wall = now, tzinfo = Some 0\<rparr>"

definition days :: "int \<Rightarrow> int" where
  "days n = n * 24 * 60 * 60 * 1000000"

text \<open>\<^verbatim>\<open>d + timedelta(days=n)\<close>.\<close>

definition plus_days :: "datetime \<Rightarrow> int \<Rightarrow> datetime" where
  "plus_days d n = d\<lparr>wall := wall d + days n\<rparr>"

section \<open>Values on their way into the store\<close>

text \<open>The driver encodes an update document before it sends it. A Python \<^verbatim>\<open>int\<close>
  is encoded when it fits 64 signed bits; for any other the driver raises
  \<^verbatim>\<open>OverflowError\<close>. A \<^verbatim>\<open>datetime\<close> is encoded as milliseconds of UTC: an aware
  value is first moved to UTC by \<^verbatim>\<open>dtm - dtm.utcoffset()\<close>, which raises
  \<^verbatim>\<open>OverflowError\<close> when the result leaves the years 1 to 9999, then the microseconds
  are cut to milliseconds. The client is not \<^verbatim>\<open>tz_aware\<close>, so the value is read back
  naive.\<close>

definition fits_int64 :: "int \<Rightarrow> bool" where
  "fits_int64 n = (- 9223372036854775808 \<le> n \<and> n \<le> 9223372036854775807)"

text \<open>\<^verbatim>\<open>datetime.min\<close> and \<^verbatim>\<open>datetime.max\<close>, in microseconds since 1970.\<close>

definition datetime_min :: int where
  "datetime_min = - 62135596800000000"

definition datetime_max :: int where
  "datetime_max = 253402300799999999"

definition bson_datetime :: "datetime \<Rightarrow> datetime option" where
  "bson_datetime d =
     (let u = utc_instant d
      in if datetime_min \<le> u \<and> u \<le> datetime_max
         then Some \<lparr>wall = (u div 1000) * 1000, tzinfo = None\<rparr>
         else None)"

section \<open>Authentication helpers\<close>

text \<open>\<^verbatim>\<open>get_current_user\<close> (lines 147-185). The cookie is read first, the
  \<^verbatim>\<open>Authorization\<close> header is the fallback. The function reads two collections and
  writes none; the store after the call is the second component.\<close>

definition get_current_user :: "request \<Rightarrow> int \<Rightarrow> db \<Rightarrow> user option \<times> db" where
  "get_current_user request now db =
     (let session_token = cookies request ''session_token'';
          session_token =
            (if \<not> truthy session_token then
               (let auth_header = headers request ''Authorization'' in
                if truthy auth_header \<and> prefix ''Bearer '' (the auth_header)
                then Some (remove_all ''Bearer '' (the auth_header))
                else session_token)
             else session_token)
      in if \<not> truthy session_token then (None, db)
         else
           (case find_one (\<lambda>s. Some (s_session_token s) = session_token) (user_sessions db) of
              None \<Rightarrow> (None, db)
            | Some session \<Rightarrow>
                (let expires_at = s_expires_at session;
                     expires_at =
                       (if tzinfo expires_at = None then expires_at\<lparr>tzinfo := Some 0\<rparr>
                        else expires_at)
                 in if utc_instant expires_at \<le> utc_instant (utc_now now) then (None, db)
                    else
                      (case find_one (\<lambda>u. u_user_id u = s_user_id session) (users db) of
                         Some user_doc \<Rightarrow> (Some user_doc, db)
                       | None \<Rightarrow> (None, db)))))"

text \<open>\<^verbatim>\<open>require_auth\<close> (lines 187-191).\<close>

definition require_auth :: "request \<Rightarrow> int \<Rightarrow> db \<Rightarrow> http_error + user" where
  "require_auth request now db =
     (case fst (get_current_user request now db) of
        None \<Rightarrow> Inl (HTTPException 401 ''Not authenticated'')
      | Some user \<Rightarrow> Inr user)"

section \<open>Endpoints\<close>

text \<open>Every endpoint returns its outcome (\<open>Inl\<close> the raised exception, \<open>Inr\<close> the
  returned value) and the store after the call. Identifiers from \<^verbatim>\<open>uuid4\<close>, tokens
  from \<^verbatim>\<open>secrets\<close> and clock readings are arguments. An exception that no handler
  catches is answered with status 500.\<close>

text \<open>\<^verbatim>\<open>verify_password\<close> (lines 196-197). The library function
  \<^verbatim>\<open>bcrypt.checkpw\<close> is the argument \<open>checkpw\<close>; it returns a truth value or raises
  (\<open>None\<close>), as \<^verbatim>\<open>str.encode\<close> before it may. Nothing here catches the exception.\<close>

definition verify_password ::
  "(string \<Rightarrow> string \<Rightarrow> bool option) \<Rightarrow> string \<Rightarrow> string \<Rightarrow> bool option" where
  "verify_password checkpw password hashed = checkpw password hashed"

text \<open>\<^verbatim>\<open>login\<close> (lines 267-304). In
  \<^verbatim>\<open>not password_doc or not verify_password(...)\<close> the password is verified only when
  a stored credential was found. The cookie set on the response carries the same token
  as the returned dictionary.\<close>

definition login ::
  "(string \<Rightarrow> string \<Rightarrow> bool option) \<Rightarrow> user_login \<Rightarrow> string \<Rightarrow> int \<Rightarrow> int \<Rightarrow> db
     \<Rightarrow> (http_error + login_result) \<times> db" where
  "login checkpw credentials new_token t_expires t_created db =
     (let user =
            (if truthy (l_email credentials)
             then find_one (\<lambda>u. u_email u = l_email credentials) (users db)
             else if truthy (l_phone credentials)
             then find_one (\<lambda>u. u_phone u = l_phone credentials) (users db)
             else None)
      in case user of
           None \<Rightarrow> (Inl (HTTPException 401 ''Invalid credentials''), db)
         | Some user \<Rightarrow>
             (let password_doc =
                    find_one (\<lambda>p. p_user_id p = u_user_id user) (user_passwords db)
              in case password_doc of
                   None \<Rightarrow> (Inl (HTTPException 401 ''Invalid credentials''), db)
                 | Some password_doc \<Rightarrow>
                     (case verify_password checkpw (l_password credentials)
                             (p_password_hash password_doc) of
                        None \<Rightarrow> (Inl (HTTPException 500 ''Internal Server Error''), db)
                      | Some verified \<Rightarrow>
                          if \<not> verified
                          then (Inl (HTTPException 401 ''Invalid credentials''), db)
                          else
                            (let session_token = new_token;
                                 db' = db\<lparr>user_sessions :=
                                         insert_one
                                           \<lparr>s_user_id = u_user_id user,
                                            s_session_token = session_token,
                                            s_expires_at = plus_days (utc_now t_expires) 7,
                                            s_created_at = utc_now t_created\<rparr>
                                           (user_sessions db)\<rparr>
                             in (Inr \<lparr>lr_user_id = u_user_id user,
                                       lr_session_token = session_token,
                                       lr_name = u_name user\<rparr>, db')))))"

text \<open>\<^verbatim>\<open>get_user\<close> (lines 458-488).\<close>

definition get_user :: "string \<Rightarrow> request \<Rightarrow> int \<Rightarrow> db \<Rightarrow> (http_error + profile_view) \<times> db" where
  "get_user user_id request now db =
     (let current_user = fst (get_current_user request now db) in
      case find_one (\<lambda>u. u_user_id u = user_id) (users db) of
        None \<Rightarrow> (Inl (HTTPException 404 ''User not found''), db)
      | Some user_obj \<Rightarrow>
          if \<not> u_is_public user_obj \<and> current_user \<noteq> None then
            (let follow =
                   find_one
                     (\<lambda>f. f_follower_id f = u_user_id (the current_user) \<and>
                          f_following_id f = user_id \<and> f_status f = ''accepted'')
                     (follows db)
             in if follow = None \<and> u_user_id (the current_user) \<noteq> user_id
                then (Inr (Limited
                        \<lparr>lp_user_id = u_user_id user_obj,
                         lp_name = u_name user_obj,
                         lp_profile_picture = u_profile_picture user_obj,
                         lp_profile_type = u_profile_type user_obj,
                         lp_is_public = u_is_public user_obj,
                         lp_is_private = True\<rparr>), db)
                else (Inr (Full user_obj), db))
          else (Inr (Full user_obj), db))"

text \<open>\<^verbatim>\<open>follow_user\<close> (lines 501-536); \<open>uuid_hex\<close> is
  \<^verbatim>\<open>uuid.uuid4().hex[:12]\<close>. Every user document is stored with the key
  \<^verbatim>\<open>is_public\<close>, so the default of \<^verbatim>\<open>target_user.get("is_public", True)\<close> is never
  taken.\<close>

definition follow_user ::
  "request \<Rightarrow> string \<Rightarrow> string \<Rightarrow> int \<Rightarrow> int \<Rightarrow> db \<Rightarrow> (http_error + follow_result) \<times> db" where
  "follow_user request following_id uuid_hex now t_created db =
     (case require_auth request now db of
        Inl e \<Rightarrow> (Inl e, db)
      | Inr user \<Rightarrow>
          if u_user_id user = following_id
          then (Inl (HTTPException 400 ''Cannot follow yourself''), db)
          else
            (case find_one (\<lambda>u. u_user_id u = following_id) (users db) of
               None \<Rightarrow> (Inl (HTTPException 404 ''User not found''), db)
             | Some target_user \<Rightarrow>
                 (case find_one
                         (\<lambda>f. f_follower_id f = u_user_id user \<and>
                              f_following_id f = following_id)
                         (follows db) of
                    Some existing \<Rightarrow>
                      (Inr \<lparr>fr_message = ''Already following or request pending'',
                            fr_status = f_status existing\<rparr>, db)
                  | None \<Rightarrow>
                      (let target_is_public = u_is_public target_user;
                           follow_id = ''follow_'' @ uuid_hex;
                           follow_doc =
                             \<lparr>f_follow_id = follow_id,
                              f_follower_id = u_user_id user,
                              f_following_id = following_id,
                              f_status = (if target_is_public then ''accepted'' else ''pending''),
                              f_created_at = utc_now t_created\<rparr>;
                           db' = db\<lparr>follows := insert_one follow_doc (follows db)\<rparr>
                       in (Inr \<lparr>fr_message =
                                  (if \<not> target_is_public then ''Follow request sent''
                                   else ''Now following''),
                                fr_status = f_status follow_doc\<rparr>, db')))))"

text \<open>\<^verbatim>\<open>unfollow_user\<close> (lines 538-550).\<close>

definition unfollow_user :: "string \<Rightarrow> request \<Rightarrow> int \<Rightarrow> db \<Rightarrow> (http_error + string) \<times> db" where
  "unfollow_user user_id request now db =
     (case require_auth request now db of
        Inl e \<Rightarrow> (Inl e, db)
      | Inr user \<Rightarrow>
          (let (deleted_count, follows') =
                 delete_one
                   (\<lambda>f. f_follower_id f = u_user_id user \<and> f_following_id f = user_id)
                   (follows db);
               db' = db\<lparr>follows := follows'\<rparr>
           in if deleted_count = 0
              then (Inl (HTTPException 404 ''Not following this user''), db')
              else (Inr ''Unfollowed'', db')))"

text \<open>\<^verbatim>\<open>respond_follow_request\<close> (lines 552-571). The query parameter
  \<^verbatim>\<open>action\<close> defaults to \<^verbatim>\<open>"accept"\<close>; the caller passes its value.\<close>

definition respond_follow_request ::
  "string \<Rightarrow> request \<Rightarrow> string \<Rightarrow> int \<Rightarrow> db \<Rightarrow> (http_error + string) \<times> db" where
  "respond_follow_request follow_id request action now db =
     (case require_auth request now db of
        Inl e \<Rightarrow> (Inl e, db)
      | Inr user \<Rightarrow>
          (case find_one
                  (\<lambda>f. f_follow_id f = follow_id \<and> f_following_id f = u_user_id user \<and>
                       f_status f = ''pending'')
                  (follows db) of
             None \<Rightarrow> (Inl (HTTPException 404 ''Follow request not found''), db)
           | Some follow \<Rightarrow>
               (let new_status = (if action = ''accept'' then ''accepted'' else ''rejected'');
                    db' = db\<lparr>follows :=
                            update_one (\<lambda>f. f_follow_id f = follow_id)
                              (\<lambda>f. f\<lparr>f_status := new_status\<rparr>) (follows db)\<rparr>
                in (Inr (''Follow request '' @ new_status), db'))))"

text \<open>The dictionary comprehension of \<^verbatim>\<open>update_ride\<close> keeps the keys whose value is
  not \<^verbatim>\<open>None\<close>; \<open>update_dict_empty\<close> says that none is left. \<open>bson_update\<close> is
  the document as the driver encodes it, \<open>None\<close> when the driver raises, and
  \<open>set_fields\<close> is \<^verbatim>\<open>$set\<close> with the keys of the encoded document.\<close>

definition update_dict_empty :: "ride_update \<Rightarrow> bool" where
  "update_dict_empty p =
     (ru_origin p = None \<and> ru_destination p = None \<and> ru_date_time p = None \<and>
      ru_available_seats p = None \<and> ru_price p = None \<and> ru_car_details p = None \<and>
      ru_preferences p = None \<and> ru_status p = None)"

definition bson_update :: "ride_update \<Rightarrow> ride_update option" where
  "bson_update p =
     (if (case ru_available_seats p of None \<Rightarrow> True | Some n \<Rightarrow> fits_int64 n) \<and>
         (case ru_date_time p of None \<Rightarrow> True | Some d \<Rightarrow> bson_datetime d \<noteq> None)
      then Some (p\<lparr>ru_date_time :=
                     (case ru_date_time p of None \<Rightarrow> None | Some d \<Rightarrow> bson_datetime d)\<rparr>)
      else None)"

definition set_fields :: "ride_update \<Rightarrow> ride \<Rightarrow> ride" where
  "set_fields p r =
     (let r = (case ru_origin p of None \<Rightarrow> r | Some v \<Rightarrow> r\<lparr>r_origin := v\<rparr>);
          r = (case ru_destination p of None \<Rightarrow> r | Some v \<Rightarrow> r\<lparr>r_destination := v\<rparr>);
          r = (case ru_date_time p of None \<Rightarrow> r | Some v \<Rightarrow> r\<lparr>r_date_time := v\<rparr>);
          r = (case ru_available_seats p of None \<Rightarrow> r | Some v \<Rightarrow> r\<lparr>r_available_seats := v\<rparr>);
          r = (case ru_price p of None \<Rightarrow> r | Some v \<Rightarrow> r\<lparr>r_price := Some v\<rparr>);
          r = (case ru_car_details p of None \<Rightarrow> r | Some v \<Rightarrow> r\<lparr>r_car_details := Some v\<rparr>);
          r = (case ru_preferences p of None \<Rightarrow> r | Some v \<Rightarrow> r\<lparr>r_preferences := Some v\<rparr>);
          r = (case ru_status p of None \<Rightarrow> r | Some v \<Rightarrow> r\<lparr>r_status := v\<rparr>)
      in r)"

text \<open>\<^verbatim>\<open>update_ride\<close> (lines 720-740). \<^verbatim>\<open>update_one\<close> raises before anything
  is written when the driver cannot encode the document. \<^verbatim>\<open>RideBase(**updated_ride)\<close>
  raises a \<^verbatim>\<open>TypeError\<close> when the second lookup finds nothing.\<close>

definition update_ride ::
  "string \<Rightarrow> request \<Rightarrow> ride_update \<Rightarrow> int \<Rightarrow> db \<Rightarrow> (http_error + ride) \<times> db" where
  "update_ride ride_id request update_data now db =
     (case require_auth request now db of
        Inl e \<Rightarrow> (Inl e, db)
      | Inr user \<Rightarrow>
          (case find_one (\<lambda>r. r_ride_id r = ride_id) (rides db) of
             None \<Rightarrow> (Inl (HTTPException 404 ''Ride not found''), db)
           | Some ride \<Rightarrow>
               if r_user_id ride \<noteq> u_user_id user
               then (Inl (HTTPException 403 ''Not authorized''), db)
               else
                 (let written =
                        (if \<not> update_dict_empty update_data
                         then
                           (case bson_update update_data of
                              None \<Rightarrow> None
                            | Some update_dict \<Rightarrow>
                                Some (db\<lparr>rides :=
                                        update_one (\<lambda>r. r_ride_id r = ride_id)
                                          (set_fields update_dict) (rides db)\<rparr>))
                         else Some db)
                  in case written of
                       None \<Rightarrow> (Inl (HTTPException 500 ''Internal Server Error''), db)
                     | Some db' \<Rightarrow>
                         (case find_one (\<lambda>r. r_ride_id r = ride_id) (rides db') of
                            None \<Rightarrow> (Inl (HTTPException 500 ''Internal Server Error''), db')
                          | Some updated_ride \<Rightarrow> (Inr updated_ride, db')))))"

text \<open>\<^verbatim>\<open>delete_ride\<close> (lines 742-754).\<close>

definition delete_ride :: "string \<Rightarrow> request \<Rightarrow> int \<Rightarrow> db \<Rightarrow> (http_error + string) \<times> db" where
  "delete_ride ride_id request now db =
     (case require_auth request now db of
        Inl e \<Rightarrow> (Inl e, db)
      | Inr user \<Rightarrow>
          (case find_one (\<lambda>r. r_ride_id r = ride_id) (rides db) of
             None \<Rightarrow> (Inl (HTTPException 404 ''Ride not found''), db)
           | Some ride \<Rightarrow>
               if r_user_id ride \<noteq> u_user_id user
               then (Inl (HTTPException 403 ''Not authorized''), db)
               else
                 (let db' = db\<lparr>rides :=
                              snd (delete_one (\<lambda>r. r_ride_id r = ride_id) (rides db))\<rparr>
                  in (Inr ''Ride deleted'', db'))))"

text \<open>\<^verbatim>\<open>request_ride\<close> (lines 758-792).\<close>

definition request_ride ::
  "request \<Rightarrow> ride_request_create \<Rightarrow> string \<Rightarrow> int \<Rightarrow> int \<Rightarrow> db
     \<Rightarrow> (http_error + ride_request) \<times> db" where
  "request_ride request req_data uuid_hex now t_created db =
     (case require_auth request now db of
        Inl e \<Rightarrow> (Inl e, db)
      | Inr user \<Rightarrow>
          (case find_one (\<lambda>r. r_ride_id r = rc_ride_id req_data) (rides db) of
             None \<Rightarrow> (Inl (HTTPException 404 ''Ride not found''), db)
           | Some ride \<Rightarrow>
               if r_user_id ride = u_user_id user
               then (Inl (HTTPException 400 ''Cannot request your own ride''), db)
               else
                 (case find_one
                         (\<lambda>q. q_ride_id q = rc_ride_id req_data \<and>
                              q_requester_id q = u_user_id user \<and>
                              q_status q \<in> set [''pending'', ''accepted''])
                         (ride_requests db) of
                    Some existing \<Rightarrow>
                      (Inl (HTTPException 400 ''Already requested this ride''), db)
                  | None \<Rightarrow>
                      (let request_id = ''req_'' @ uuid_hex;
                           request_doc =
                             \<lparr>q_request_id = request_id,
                              q_ride_id = rc_ride_id req_data,
                              q_requester_id = u_user_id user,
                              q_status = ''pending'',
                              q_message = rc_message req_data,
                              q_created_at = utc_now t_created\<rparr>;
                           db' = db\<lparr>ride_requests :=
                                   insert_one request_doc (ride_requests db)\<rparr>
                       in (Inr request_doc, db')))))"

text \<open>\<^verbatim>\<open>respond_ride_request\<close> (lines 843-871). \<^verbatim>\<open>$inc\<close> by \<open>-1\<close> is applied by
  the store to the document it finds, whatever was read before.\<close>

definition respond_ride_request ::
  "string \<Rightarrow> request \<Rightarrow> string \<Rightarrow> int \<Rightarrow> db \<Rightarrow> (http_error + string) \<times> db" where
  "respond_ride_request request_id request action now db =
     (case require_auth request now db of
        Inl e \<Rightarrow> (Inl e, db)
      | Inr user \<Rightarrow>
          (case find_one (\<lambda>q. q_request_id q = request_id) (ride_requests db) of
             None \<Rightarrow> (Inl (HTTPException 404 ''Request not found''), db)
           | Some ride_request \<Rightarrow>
               (case find_one (\<lambda>r. r_ride_id r = q_ride_id ride_request) (rides db) of
                  None \<Rightarrow> (Inl (HTTPException 403 ''Not authorized''), db)
                | Some ride \<Rightarrow>
                    if r_user_id ride \<noteq> u_user_id user
                    then (Inl (HTTPException 403 ''Not authorized''), db)
                    else
                      (let new_status =
                             (if action = ''accept'' then ''accepted'' else ''rejected'');
                           db1 = db\<lparr>ride_requests :=
                                   update_one (\<lambda>q. q_request_id q = request_id)
                                     (\<lambda>q. q\<lparr>q_status := new_status\<rparr>) (ride_requests db)\<rparr>;
                           db2 =
                             (if new_status = ''accepted'' \<and> r_available_seats ride > 0
                              then db1\<lparr>rides :=
                                     update_one (\<lambda>r. r_ride_id r = q_ride_id ride_request)
                                       (\<lambda>r. r\<lparr>r_available_seats := r_available_seats r - 1\<rparr>)
                                       (rides db1)\<rparr>
                              else db1)
                       in (Inr (''Request '' @ new_status), db2)))))"

section \<open>Observations on a store\<close>

text \<open>What a reader of the store sees: the status of the request, the follow edge and
  the seat count that a lookup by identifier returns.\<close>

definition request_status :: "string \<Rightarrow> db \<Rightarrow> string option" where
  "request_status request_id db =
     map_option q_status (find_one (\<lambda>q. q_request_id q = request_id) (ride_requests db))"

definition follow_status :: "string \<Rightarrow> db \<Rightarrow> string option" where
  "follow_status follow_id db =
     map_option f_status (find_one (\<lambda>f. f_follow_id f = follow_id) (follows db))"

definition seats_of :: "string \<Rightarrow> db \<Rightarrow> int option" where
  "seats_of ride_id db =
     map_option r_available_seats (find_one (\<lambda>r. r_ride_id r = ride_id) (rides db))"

text \<open>The edges from one user to another, and the token the first lines of
  \<^verbatim>\<open>get_current_user\<close> settle on.\<close>

definition edges :: "string \<Rightarrow> string \<Rightarrow> db \<Rightarrow> follow list" where
  "edges a b db = filter (\<lambda>f. f_follower_id f = a \<and> f_following_id f = b) (follows db)"

definition session_token_of :: "request \<Rightarrow> string option" where
  "session_token_of request =
     (let session_token = cookies request ''session_token'' in
      if \<not> truthy session_token then
        (let auth_header = headers request ''Authorization'' in
         if truthy auth_header \<and> prefix ''Bearer '' (the auth_header)
         then Some (remove_all ''Bearer '' (the auth_header))
         else session_token)
      else session_token)"

text \<open>A stored \<^verbatim>\<open>expires_at\<close> normalised to UTC: a naive value is read as UTC, an
  aware one is kept.\<close>

definition as_utc :: "datetime \<Rightarrow> datetime" where
  "as_utc d = (if tzinfo d = None then d\<lparr>tzinfo := Some 0\<rparr> else d)"

text \<open>The user \<^verbatim>\<open>login\<close> looks up for the credentials it was given.\<close>

definition matching_user :: "user_login \<Rightarrow> db \<Rightarrow> user option" where
  "matching_user credentials db =
     (if truthy (l_email credentials)
      then find_one (\<lambda>u. u_email u = l_email credentials) (users db)
      else if truthy (l_phone credentials)
      then find_one (\<lambda>u. u_phone u = l_phone credentials) (users db)
      else None)"

definition invalid_credentials :: http_error where
  "invalid_credentials = HTTPException 401 ''Invalid credentials''"

section \<open>A sample store\<close>

text \<open>Three users: Ann (public) owns two rides, Bob is private and has a password,
  Cy is public and has none. The clock reads 100; one of Ann's sessions ran out at 50,
  and one session belongs to a user that is not stored.\<close>

definition t0 :: datetime where
  "t0 = \<lparr>wall = 0, tzinfo = None\<rparr>"

definition mk_user :: "string \<Rightarrow> string \<Rightarrow> bool \<Rightarrow> user" where
  "mk_user uid mail pub =
     \<lparr>u_user_id = uid, u_email = Some mail, u_phone = None, u_name = uid,
      u_profile_picture = None, u_bio = Some ''bio'', u_profile_type = ''passenger'',
      u_is_public = pub, u_auth_type = ''email'', u_created_at = t0\<rparr>"

definition mk_session :: "string \<Rightarrow> string \<Rightarrow> int \<Rightarrow> session" where
  "mk_session uid tok expiry =
     \<lparr>s_user_id = uid, s_session_token = tok,
      s_expires_at = \<lparr>wall = expiry, tzinfo = None\<rparr>, s_created_at = t0\<rparr>"

definition mk_ride :: "string \<Rightarrow> string \<Rightarrow> int \<Rightarrow> ride" where
  "mk_ride rid uid seats =
     \<lparr>r_ride_id = rid, r_user_id = uid, r_origin = ''A'', r_destination = ''B'',
      r_date_time = t0, r_available_seats = seats, r_price = None, r_car_details = None,
      r_preferences = None, r_ride_type = ''offering'', r_status = ''active'',
      r_created_at = t0\<rparr>"

definition mk_req :: "string \<Rightarrow> string \<Rightarrow> string \<Rightarrow> string \<Rightarrow> ride_request" where
  "mk_req qid rid uid st =
     \<lparr>q_request_id = qid, q_ride_id = rid, q_requester_id = uid, q_status = st,
      q_message = None, q_created_at = t0\<rparr>"

definition mk_follow :: "string \<Rightarrow> string \<Rightarrow> string \<Rightarrow> string \<Rightarrow> follow" where
  "mk_follow fid a b st =
     \<lparr>f_follow_id = fid, f_follower_id = a, f_following_id = b, f_status = st,
      f_created_at = t0\<rparr>"

definition ann :: user where "ann = mk_user ''ann'' ''a@x'' True"
definition bob :: user where "bob = mk_user ''bob'' ''b@x'' False"
definition cy :: user where "cy = mk_user ''cy'' ''c@x'' True"

definition db0 :: db where
  "db0 =
     \<lparr>users = [ann, bob, cy],
      user_passwords = [\<lparr>p_user_id = ''bob'', p_password_hash = ''h:pw''\<rparr>],
      user_sessions =
        [mk_session ''ann'' ''ta'' 1000, mk_session ''bob'' ''tb'' 1000,
         mk_session ''cy'' ''tc'' 1000, mk_session ''ann'' ''old'' 50,
         mk_session ''dee'' ''td'' 1000],
      follows =
        [mk_follow ''f1'' ''cy'' ''bob'' ''pending'',
         mk_follow ''f2'' ''ann'' ''bob'' ''rejected'',
         mk_follow ''f3'' ''bob'' ''ann'' ''accepted''],
      rides = [mk_ride ''r1'' ''ann'' 3, mk_ride ''r0'' ''ann'' 0],
      ride_requests =
        [mk_req ''q1'' ''r1'' ''bob'' ''pending'',
         mk_req ''q2'' ''r0'' ''bob'' ''pending'',
         mk_req ''q3'' ''r1'' ''cy'' ''accepted'',
         mk_req ''q4'' ''r0'' ''cy'' ''rejected'']\<rparr>"

text \<open>Requests carrying a session cookie, a bearer header, or nothing.\<close>

definition with_cookie :: "string \<Rightarrow> request" where
  "with_cookie tok = \<lparr>cookies = [''session_token'' \<mapsto> tok], headers = Map.empty\<rparr>"

definition with_bearer :: "string \<Rightarrow> request" where
  "with_bearer tok =
     \<lparr>cookies = Map.empty, headers = [''Authorization'' \<mapsto> ''Bearer '' @ tok]\<rparr>"

definition anonymous :: request where
  "anonymous = \<lparr>cookies = Map.empty, headers = Map.empty\<rparr>"

text \<open>A stand-in for \<^verbatim>\<open>bcrypt.checkpw\<close> on the sample store: the hash of a password
  is the password after \<^verbatim>\<open>h:\<close>. As bcrypt 5.0 does, it raises for a password of
  more than 72 bytes.\<close>

definition check_sample :: "string \<Rightarrow> string \<Rightarrow> bool option" where
  "check_sample password hashed =
     (if 72 < length password then None else Some (hashed = ''h:'' @ password))"

definition long_password :: string where
  "long_password = replicate 73 (CHR ''a'')"

text \<open>Patches of \<^verbatim>\<open>RideUpdate\<close> that set the date, or the seat count, and nothing
  else.\<close>

definition date_patch :: "datetime \<Rightarrow> ride_update" where
  "date_patch d =
     \<lparr>ru_origin = None, ru_destination = None, ru_date_time = Some d,
      ru_available_seats = None, ru_price = None, ru_car_details = None,
      ru_preferences = None, ru_status = None\<rparr>"

definition seats_patch :: "int \<Rightarrow> ride_update" where
  "seats_patch n =
     \<lparr>ru_origin = None, ru_destination = None, ru_date_time = None,
      ru_available_seats = Some n, ru_price = None, ru_car_details = None,
      ru_preferences = None, ru_status = None\<rparr>"

section \<open>Session resolution\<close>

lemma get_current_user_unfold:
  "get_current_user request now db =
     (if \<not> truthy (session_token_of request) then (None, db)
      else
        (case find_one (\<lambda>s. Some (s_session_token s) = session_token_of request)
                (user_sessions db) of
           None \<Rightarrow> (None, db)
         | Some session \<Rightarrow>
             if utc_instant
                  (if tzinfo (s_expires_at session) = None
                   then (s_expires_at session)\<lparr>tzinfo := Some 0\<rparr>
                   else s_expires_at session) \<le> utc_instant (utc_now now)
             then (None, db)
             else
               (case find_one (\<lambda>u. u_user_id u = s_user_id session) (users db) of
                  Some user_doc \<Rightarrow> (Some user_doc, db)
                | None \<Rightarrow> (None, db))))"
  unfolding get_current_user_def session_token_of_def Let_def by (rule refl)

lemma utc_instant_as_utc: "utc_instant (as_utc d) = utc_instant d"
  by (simp add: utc_instant_def as_utc_def split: option.splits)

lemma utc_instant_now: "utc_instant (utc_now now) = now"
  by (simp add: utc_instant_def utc_now_def)

lemma get_current_user_token:
  "get_current_user request now db =
     (case session_token_of request of
        None \<Rightarrow> (None, db)
      | Some tok \<Rightarrow>
          if tok = [] then (None, db)
          else
            (case find_one (\<lambda>s. s_session_token s = tok) (user_sessions db) of
               None \<Rightarrow> (None, db)
             | Some session \<Rightarrow>
                 if utc_instant (as_utc (s_expires_at session)) \<le> now then (None, db)
                 else (find_one (\<lambda>u. u_user_id u = s_user_id session) (users db), db)))"
proof (cases "session_token_of request")
  case None
  then show ?thesis
    by (simp add: get_current_user_unfold truthy_def)
next
  case (Some tok)
  then show ?thesis
    by (simp add: get_current_user_unfold truthy_def as_utc_def [symmetric] utc_instant_now
        split: option.splits)
qed

lemma get_current_user_store: "snd (get_current_user request now db) = db"
  by (simp add: get_current_user_token split: option.splits)

lemma require_auth_users_sessions:
  assumes "users db' = users db" and "user_sessions db' = user_sessions db"
  shows "require_auth request now db' = require_auth request now db"
  using assms by (simp add: require_auth_def get_current_user_token split: option.splits)

text \<open>Evaluation of the sample store.\<close>

lemmas sample_defs =
  db0_def ann_def bob_def cy_def mk_user_def mk_session_def mk_ride_def mk_req_def
  mk_follow_def t0_def

lemma token_of_cookie: "session_token_of (with_cookie (c # cs)) = Some (c # cs)"
  by (simp add: session_token_of_def with_cookie_def truthy_def)

lemma token_of_bearer: "session_token_of (with_bearer ''td'') = Some ''td''"
  by (simp add: session_token_of_def with_bearer_def truthy_def)

lemma token_of_anonymous: "session_token_of anonymous = None"
  by (simp add: session_token_of_def anonymous_def truthy_def)

lemma auth_ann: "require_auth (with_cookie ''ta'') 100 db0 = Inr ann"
  by (simp add: require_auth_def get_current_user_token token_of_cookie find_one_def
      utc_instant_def as_utc_def sample_defs)

lemma auth_bob: "require_auth (with_cookie ''tb'') 100 db0 = Inr bob"
  by (simp add: require_auth_def get_current_user_token token_of_cookie find_one_def
      utc_instant_def as_utc_def sample_defs)

lemma auth_cy: "require_auth (with_cookie ''tc'') 100 db0 = Inr cy"
  by (simp add: require_auth_def get_current_user_token token_of_cookie find_one_def
      utc_instant_def as_utc_def sample_defs)

text \<open>
  \<^bold>\<open>C5.\<close> When the session found for the request's token has an \<^verbatim>\<open>expires_at\<close>
  that, normalised to UTC, is at or before the clock reading, \<^verbatim>\<open>get_current_user\<close>
  returns \<^verbatim>\<open>None\<close> and \<^verbatim>\<open>require_auth\<close> raises 401; the store is as it was, so
  the expired row is still found. When the session's user is not stored, the result is
  \<^verbatim>\<open>None\<close> as well.
\<close>

theorem expired_or_orphaned_session_is_absent:
  assumes tok: "session_token_of request = Some tok"
    and found: "find_one (\<lambda>s. s_session_token s = tok) (user_sessions db) = Some session"
  shows
    "(utc_instant (as_utc (s_expires_at session)) \<le> now \<longrightarrow>
        get_current_user request now db = (None, db) \<and>
        require_auth request now db = Inl (HTTPException 401 ''Not authenticated'') \<and>
        find_one (\<lambda>s. s_session_token s = tok)
          (user_sessions (snd (get_current_user request now db))) = Some session) \<and>
     (find_one (\<lambda>u. u_user_id u = s_user_id session) (users db) = None \<longrightarrow>
        get_current_user request now db = (None, db) \<and>
        require_auth request now db = Inl (HTTPException 401 ''Not authenticated''))"
proof (intro conjI impI)
  assume expired: "utc_instant (as_utc (s_expires_at session)) \<le> now"
  show gone: "get_current_user request now db = (None, db)"
    using tok found expired by (simp add: get_current_user_token)
  then show "require_auth request now db = Inl (HTTPException 401 ''Not authenticated'')"
    by (simp add: require_auth_def)
  show "find_one (\<lambda>s. s_session_token s = tok)
          (user_sessions (snd (get_current_user request now db))) = Some session"
    using found by (simp add: get_current_user_store)
next
  assume orphan: "find_one (\<lambda>u. u_user_id u = s_user_id session) (users db) = None"
  show gone: "get_current_user request now db = (None, db)"
    using tok found orphan by (simp add: get_current_user_token)
  then show "require_auth request now db = Inl (HTTPException 401 ''Not authenticated'')"
    by (simp add: require_auth_def)
qed

theorem expired_or_orphaned_session_is_absent_witness:
  "get_current_user (with_cookie ''old'') 100 db0 = (None, db0) \<and>
   require_auth (with_cookie ''old'') 100 db0 = Inl (HTTPException 401 ''Not authenticated'') \<and>
   find_one (\<lambda>s. s_session_token s = ''old'')
     (user_sessions (snd (get_current_user (with_cookie ''old'') 100 db0)))
     = Some (mk_session ''ann'' ''old'' 50) \<and>
   get_current_user (with_bearer ''td'') 100 db0 = (None, db0)"
proof -
  have old: "find_one (\<lambda>s. s_session_token s = ''old'') (user_sessions db0)
      = Some (mk_session ''ann'' ''old'' 50)"
    by (simp add: find_one_def db0_def mk_session_def)
  have expired: "utc_instant (as_utc (s_expires_at (mk_session ''ann'' ''old'' 50))) \<le> 100"
    by (simp add: utc_instant_def as_utc_def mk_session_def)
  have td: "find_one (\<lambda>s. s_session_token s = ''td'') (user_sessions db0)
      = Some (mk_session ''dee'' ''td'' 1000)"
    by (simp add: find_one_def db0_def mk_session_def)
  have orphan: "find_one (\<lambda>u. u_user_id u = s_user_id (mk_session ''dee'' ''td'' 1000))
      (users db0) = None"
    by (simp add: find_one_def sample_defs)
  note first =
    expired_or_orphaned_session_is_absent
      [OF token_of_cookie old, of 100, THEN conjunct1, rule_format, OF expired]
  note second =
    expired_or_orphaned_session_is_absent
      [OF token_of_bearer td, of 100, THEN conjunct2, rule_format, OF orphan]
  from first second show ?thesis by blast
qed

section \<open>Lookups and updates in a collection\<close>

lemma find_one_Some:
  "find_one P xs = Some x \<Longrightarrow> x \<in> set xs \<and> P x"
  by (auto simp: find_one_def find_Some_iff)

lemma find_one_None: "find_one P xs = None \<longleftrightarrow> (\<forall>x\<in>set xs. \<not> P x)"
  by (auto simp: find_one_def find_None_iff)

lemma find_one_update_one:
  "find_one P xs = Some x \<Longrightarrow> P (f x) \<Longrightarrow> find_one P (update_one P f xs) = Some (f x)"
  by (induction xs) (auto simp: find_one_def split: if_splits)

lemma length_update_one: "length (update_one P f xs) = length xs"
  by (induction xs) auto

lemma update_one_nth:
  "find_one P xs = Some x \<Longrightarrow> i < length xs \<Longrightarrow>
     update_one P f xs ! i = xs ! i \<or> (xs ! i = x \<and> update_one P f xs ! i = f x)"
proof (induction xs arbitrary: i)
  case Nil
  then show ?case by simp
next
  case (Cons y ys)
  show ?case
  proof (cases "P y")
    case True
    with Cons.prems show ?thesis by (cases i) (simp_all add: find_one_def)
  next
    case False
    with Cons.prems have "find_one P ys = Some x" by (simp add: find_one_def)
    with Cons.IH Cons.prems False show ?thesis by (cases i) simp_all
  qed
qed

section \<open>Responding to a ride request\<close>

text \<open>
  What \<^verbatim>\<open>respond_ride_request\<close> does once the caller is authenticated, the
  request is found and its ride belongs to the caller. The status of the request is
  not looked at.
\<close>

lemma respond_ride_request_owner:
  assumes auth: "require_auth request now db = Inr user"
    and rq: "find_one (\<lambda>q. q_request_id q = request_id) (ride_requests db) = Some rq"
    and rd: "find_one (\<lambda>r. r_ride_id r = q_ride_id rq) (rides db) = Some rd"
    and owner: "r_user_id rd = u_user_id user"
  shows "respond_ride_request request_id request action now db =
     (Inr (''Request '' @ (if action = ''accept'' then ''accepted'' else ''rejected'')),
      db\<lparr>ride_requests :=
           update_one (\<lambda>q. q_request_id q = request_id)
             (\<lambda>q. q\<lparr>q_status := (if action = ''accept'' then ''accepted'' else ''rejected'')\<rparr>)
             (ride_requests db),
         rides :=
           (if action = ''accept'' \<and> 0 < r_available_seats rd
            then update_one (\<lambda>r. r_ride_id r = q_ride_id rq)
                   (\<lambda>r. r\<lparr>r_available_seats := r_available_seats r - 1\<rparr>) (rides db)
            else rides db)\<rparr>)"
  using assms by (simp add: respond_ride_request_def Let_def)

lemma respond_ride_request_status:
  assumes auth: "require_auth request now db = Inr user"
    and rq: "find_one (\<lambda>q. q_request_id q = request_id) (ride_requests db) = Some rq"
    and rd: "find_one (\<lambda>r. r_ride_id r = q_ride_id rq) (rides db) = Some rd"
    and owner: "r_user_id rd = u_user_id user"
  shows "request_status request_id (snd (respond_ride_request request_id request action now db))
    = Some (if action = ''accept'' then ''accepted'' else ''rejected'')"
proof -
  let ?f = "\<lambda>q. q\<lparr>q_status := (if action = ''accept'' then ''accepted'' else ''rejected'')\<rparr>"
  have "find_one (\<lambda>q. q_request_id q = request_id)
          (update_one (\<lambda>q. q_request_id q = request_id) ?f (ride_requests db)) = Some (?f rq)"
    using rq find_one_Some [OF rq] by (intro find_one_update_one) simp_all
  then show ?thesis
    by (simp add: respond_ride_request_owner [OF assms] request_status_def)
qed

lemma respond_ride_request_seats:
  assumes auth: "require_auth request now db = Inr user"
    and rq: "find_one (\<lambda>q. q_request_id q = request_id) (ride_requests db) = Some rq"
    and rd: "find_one (\<lambda>r. r_ride_id r = q_ride_id rq) (rides db) = Some rd"
    and owner: "r_user_id rd = u_user_id user"
  shows "seats_of (q_ride_id rq) (snd (respond_ride_request request_id request action now db))
    = Some (if action = ''accept'' \<and> 0 < r_available_seats rd
            then r_available_seats rd - 1 else r_available_seats rd)"
proof -
  let ?f = "\<lambda>r. r\<lparr>r_available_seats := r_available_seats r - 1\<rparr>"
  have "find_one (\<lambda>r. r_ride_id r = q_ride_id rq)
          (update_one (\<lambda>r. r_ride_id r = q_ride_id rq) ?f (rides db)) = Some (?f rd)"
    using rd find_one_Some [OF rd] by (intro find_one_update_one) simp_all
  then show ?thesis
    using rd by (simp add: respond_ride_request_owner [OF assms] seats_of_def)
qed

lemma respond_ride_request_rides:
  "rides (snd (respond_ride_request request_id request action now db)) = rides db \<or>
   (\<exists>rid rd. find_one (\<lambda>r. r_ride_id r = rid) (rides db) = Some rd \<and>
      0 < r_available_seats rd \<and>
      rides (snd (respond_ride_request request_id request action now db)) =
        update_one (\<lambda>r. r_ride_id r = rid)
          (\<lambda>r. r\<lparr>r_available_seats := r_available_seats r - 1\<rparr>) (rides db))"
  by (auto simp: respond_ride_request_def Let_def split: sum.splits option.splits)

lemma sample_q1: "find_one (\<lambda>q. q_request_id q = ''q1'') (ride_requests db0)
    = Some (mk_req ''q1'' ''r1'' ''bob'' ''pending'')"
  by (simp add: find_one_def db0_def mk_req_def)

lemma sample_q2: "find_one (\<lambda>q. q_request_id q = ''q2'') (ride_requests db0)
    = Some (mk_req ''q2'' ''r0'' ''bob'' ''pending'')"
  by (simp add: find_one_def db0_def mk_req_def)

lemma sample_q3: "find_one (\<lambda>q. q_request_id q = ''q3'') (ride_requests db0)
    = Some (mk_req ''q3'' ''r1'' ''cy'' ''accepted'')"
  by (simp add: find_one_def db0_def mk_req_def)

lemma sample_r1: "find_one (\<lambda>r. r_ride_id r = ''r1'') (rides db0) = Some (mk_ride ''r1'' ''ann'' 3)"
  by (simp add: find_one_def db0_def mk_ride_def)

lemma sample_r0: "find_one (\<lambda>r. r_ride_id r = ''r0'') (rides db0) = Some (mk_ride ''r0'' ''ann'' 0)"
  by (simp add: find_one_def db0_def mk_ride_def)

lemma sample_ids [simp]:
  "q_ride_id (mk_req qid rid uid st) = rid" "q_status (mk_req qid rid uid st) = st"
  "q_requester_id (mk_req qid rid uid st) = uid" "q_request_id (mk_req qid rid uid st) = qid"
  "r_user_id (mk_ride rid' uid' n) = uid'" "r_available_seats (mk_ride rid' uid' n) = n"
  "r_ride_id (mk_ride rid' uid' n) = rid'"
  "u_user_id (mk_user uid'' mail pub) = uid''" "u_is_public (mk_user uid'' mail pub) = pub"
  by (simp_all add: mk_req_def mk_ride_def mk_user_def)

lemma sample_f1: "find_one (\<lambda>f. f_follow_id f = ''f1'' \<and> f_following_id f = u_user_id bob \<and>
    f_status f = ''pending'') (follows db0) = Some (mk_follow ''f1'' ''cy'' ''bob'' ''pending'')"
  by (simp add: find_one_def db0_def mk_follow_def bob_def)

text \<open>
  \<^bold>\<open>C1.\<close> The owner of a ride answers a pending request against it. With
  \<^verbatim>\<open>accept\<close> the request becomes \<^verbatim>\<open>accepted\<close>; the ride's
  \<^verbatim>\<open>available_seats\<close> goes down by exactly one when it was greater than 0, and stays
  0 (no ride is written) when it was 0. With \<^verbatim>\<open>reject\<close> the request becomes
  \<^verbatim>\<open>rejected\<close> and no ride changes.
\<close>

theorem accept_decrements_available_seats:
  assumes auth: "require_auth request now db = Inr user"
    and rq: "find_one (\<lambda>q. q_request_id q = request_id) (ride_requests db) = Some rq"
    and pending: "q_status rq = ''pending''"
    and rd: "find_one (\<lambda>r. r_ride_id r = q_ride_id rq) (rides db) = Some rd"
    and owner: "r_user_id rd = u_user_id user"
  shows
    "fst (respond_ride_request request_id request ''accept'' now db) = Inr ''Request accepted'' \<and>
     request_status request_id (snd (respond_ride_request request_id request ''accept'' now db))
       = Some ''accepted'' \<and>
     (0 < r_available_seats rd \<longrightarrow>
        seats_of (q_ride_id rq) (snd (respond_ride_request request_id request ''accept'' now db))
          = Some (r_available_seats rd - 1)) \<and>
     (r_available_seats rd = 0 \<longrightarrow>
        seats_of (q_ride_id rq) (snd (respond_ride_request request_id request ''accept'' now db))
          = Some 0 \<and>
        rides (snd (respond_ride_request request_id request ''accept'' now db)) = rides db) \<and>
     fst (respond_ride_request request_id request ''reject'' now db) = Inr ''Request rejected'' \<and>
     request_status request_id (snd (respond_ride_request request_id request ''reject'' now db))
       = Some ''rejected'' \<and>
     rides (snd (respond_ride_request request_id request ''reject'' now db)) = rides db"
proof -
  note ok = respond_ride_request_owner [OF auth rq rd owner]
  note st = respond_ride_request_status [OF auth rq rd owner]
  note se = respond_ride_request_seats [OF auth rq rd owner]
  have a1: "fst (respond_ride_request request_id request ''accept'' now db) = Inr ''Request accepted''"
    by (simp add: ok)
  have a2: "request_status request_id (snd (respond_ride_request request_id request ''accept'' now db))
       = Some ''accepted''"
    by (simp add: st)
  have a3: "0 < r_available_seats rd \<longrightarrow>
        seats_of (q_ride_id rq) (snd (respond_ride_request request_id request ''accept'' now db))
          = Some (r_available_seats rd - 1)"
    by (simp add: se)
  have a4: "r_available_seats rd = 0 \<longrightarrow>
        seats_of (q_ride_id rq) (snd (respond_ride_request request_id request ''accept'' now db))
          = Some 0 \<and>
        rides (snd (respond_ride_request request_id request ''accept'' now db)) = rides db"
  proof
    assume z: "r_available_seats rd = 0"
    have "seats_of (q_ride_id rq) (snd (respond_ride_request request_id request ''accept'' now db))
          = Some 0"
      using z by (simp add: se)
    moreover have "rides (snd (respond_ride_request request_id request ''accept'' now db)) = rides db"
      using z by (simp add: ok)
    ultimately show "seats_of (q_ride_id rq) (snd (respond_ride_request request_id request ''accept'' now db))
          = Some 0 \<and>
        rides (snd (respond_ride_request request_id request ''accept'' now db)) = rides db"
      by simp
  qed
  have r1: "fst (respond_ride_request request_id request ''reject'' now db) = Inr ''Request rejected''"
    by (simp add: ok)
  have r2: "request_status request_id (snd (respond_ride_request request_id request ''reject'' now db))
       = Some ''rejected''"
    by (simp add: st)
  have r3: "rides (snd (respond_ride_request request_id request ''reject'' now db)) = rides db"
    by (simp add: ok)
  from a1 a2 a3 a4 r1 r2 r3 show ?thesis by blast
qed

theorem accept_decrements_available_seats_witness:
  "seats_of ''r1'' db0 = Some 3 \<and>
   fst (respond_ride_request ''q1'' (with_cookie ''ta'') ''accept'' 100 db0)
     = Inr ''Request accepted'' \<and>
   request_status ''q1'' (snd (respond_ride_request ''q1'' (with_cookie ''ta'') ''accept'' 100 db0))
     = Some ''accepted'' \<and>
   seats_of ''r1'' (snd (respond_ride_request ''q1'' (with_cookie ''ta'') ''accept'' 100 db0))
     = Some 2 \<and>
   seats_of ''r0'' (snd (respond_ride_request ''q2'' (with_cookie ''ta'') ''accept'' 100 db0))
     = Some 0 \<and>
   request_status ''q2'' (snd (respond_ride_request ''q2'' (with_cookie ''ta'') ''accept'' 100 db0))
     = Some ''accepted'' \<and>
   rides (snd (respond_ride_request ''q1'' (with_cookie ''ta'') ''reject'' 100 db0)) = rides db0"
proof -
  have r1: "find_one (\<lambda>r. r_ride_id r = q_ride_id (mk_req ''q1'' ''r1'' ''bob'' ''pending''))
      (rides db0) = Some (mk_ride ''r1'' ''ann'' 3)"
    using sample_r1 by simp
  have r0: "find_one (\<lambda>r. r_ride_id r = q_ride_id (mk_req ''q2'' ''r0'' ''bob'' ''pending''))
      (rides db0) = Some (mk_ride ''r0'' ''ann'' 0)"
    using sample_r0 by simp
  have s: "seats_of ''r1'' db0 = Some 3"
    by (simp add: seats_of_def sample_r1)
  note first = accept_decrements_available_seats [OF auth_ann sample_q1 _ r1]
  note second = accept_decrements_available_seats [OF auth_ann sample_q2 _ r0]
  from first second s show ?thesis by (simp add: ann_def)
qed

text \<open>
  \<^bold>\<open>C9.\<close> One call of \<^verbatim>\<open>respond_ride_request\<close>, whatever its arguments and
  its outcome, keeps the number of rides, and every ride whose \<^verbatim>\<open>available_seats\<close>
  was at least 0 before the call still has at least 0 after it: the only write to a ride
  is a decrement of the ride that was read, and only when the value read was above 0.
\<close>

theorem respond_keeps_seats_nonnegative:
  "length (rides (snd (respond_ride_request request_id request action now db)))
     = length (rides db) \<and>
   (\<forall>i < length (rides db).
      0 \<le> r_available_seats (rides db ! i) \<longrightarrow>
      0 \<le> r_available_seats
             (rides (snd (respond_ride_request request_id request action now db)) ! i))"
proof -
  let ?db' = "snd (respond_ride_request request_id request action now db)"
  let ?dec = "\<lambda>r. r\<lparr>r_available_seats := r_available_seats r - 1\<rparr>"
  from respond_ride_request_rides [of request_id request action now db]
  show ?thesis
  proof (elim disjE exE conjE)
    assume "rides ?db' = rides db"
    then show ?thesis by simp
  next
    fix rid rd
    assume rd: "find_one (\<lambda>r. r_ride_id r = rid) (rides db) = Some rd"
      and pos: "0 < r_available_seats rd"
      and eq: "rides ?db' = update_one (\<lambda>r. r_ride_id r = rid) ?dec (rides db)"
    have "0 \<le> r_available_seats (update_one (\<lambda>r. r_ride_id r = rid) ?dec (rides db) ! i)"
      if "i < length (rides db)" and "0 \<le> r_available_seats (rides db ! i)" for i
      using update_one_nth [OF rd that(1), of ?dec] that(2) pos by auto
    then show ?thesis by (simp add: eq length_update_one)
  qed
qed

theorem respond_keeps_seats_nonnegative_witness:
  "0 \<le> r_available_seats (rides db0 ! 1) \<and>
   0 \<le> r_available_seats
          (rides (snd (respond_ride_request ''q2'' (with_cookie ''ta'') ''accept'' 100 db0)) ! 1) \<and>
   0 \<le> r_available_seats
          (rides (snd (respond_ride_request ''q1'' (with_cookie ''ta'') ''accept'' 100 db0)) ! 0)"
proof -
  have len: "length (rides db0) = 2" by (simp add: db0_def)
  have n1: "0 \<le> r_available_seats (rides db0 ! 1)" by (simp add: db0_def)
  have n0: "0 \<le> r_available_seats (rides db0 ! 0)" by (simp add: db0_def)
  note a = respond_keeps_seats_nonnegative
    [of "''q2''" "with_cookie ''ta''" "''accept''" 100 db0, THEN conjunct2, rule_format, of 1]
  note b = respond_keeps_seats_nonnegative
    [of "''q1''" "with_cookie ''ta''" "''accept''" 100 db0, THEN conjunct2, rule_format, of 0]
  from a b len n1 n0 show ?thesis by simp
qed

lemma respond_follow_request_pending:
  assumes auth: "require_auth request now db = Inr user"
    and f: "find_one (\<lambda>f. f_follow_id f = follow_id \<and> f_following_id f = u_user_id user \<and>
                       f_status f = ''pending'') (follows db) = Some f"
  shows "respond_follow_request follow_id request action now db =
     (Inr (''Follow request '' @ (if action = ''accept'' then ''accepted'' else ''rejected'')),
      db\<lparr>follows :=
           update_one (\<lambda>f. f_follow_id f = follow_id)
             (\<lambda>f. f\<lparr>f_status := (if action = ''accept'' then ''accepted'' else ''rejected'')\<rparr>)
             (follows db)\<rparr>)"
  using assms by (simp add: respond_follow_request_def Let_def)

lemma respond_follow_request_status:
  assumes auth: "require_auth request now db = Inr user"
    and f: "find_one (\<lambda>f. f_follow_id f = follow_id \<and> f_following_id f = u_user_id user \<and>
                       f_status f = ''pending'') (follows db) = Some f"
  shows "follow_status follow_id (snd (respond_follow_request follow_id request action now db))
    = Some (if action = ''accept'' then ''accepted'' else ''rejected'')"
proof -
  let ?ns = "if action = ''accept'' then ''accepted'' else ''rejected''"
  from find_one_Some [OF f] have "f \<in> set (follows db)" "f_follow_id f = follow_id"
    by simp_all
  then obtain g where g: "find_one (\<lambda>f. f_follow_id f = follow_id) (follows db) = Some g"
    by (cases "find_one (\<lambda>f. f_follow_id f = follow_id) (follows db)")
      (auto simp: find_one_None)
  have "find_one (\<lambda>f. f_follow_id f = follow_id)
          (update_one (\<lambda>f. f_follow_id f = follow_id) (\<lambda>f. f\<lparr>f_status := ?ns\<rparr>) (follows db))
        = Some (g\<lparr>f_status := ?ns\<rparr>)"
    using g find_one_Some [OF g] by (intro find_one_update_one) simp_all
  then show ?thesis
    by (simp add: respond_follow_request_pending [OF auth f] follow_status_def)
qed

lemma respond_follow_request_success:
  assumes "fst (respond_follow_request follow_id request action now db) = Inr m"
  shows "\<exists>user f. require_auth request now db = Inr user \<and>
     find_one (\<lambda>f. f_follow_id f = follow_id \<and> f_following_id f = u_user_id user \<and>
                       f_status f = ''pending'') (follows db) = Some f"
  using assms by (auto simp: respond_follow_request_def split: sum.splits option.splits)

lemma respond_ride_request_success:
  assumes "fst (respond_ride_request request_id request action now db) = Inr m"
  shows "\<exists>user rq rd. require_auth request now db = Inr user \<and>
     find_one (\<lambda>q. q_request_id q = request_id) (ride_requests db) = Some rq \<and>
     find_one (\<lambda>r. r_ride_id r = q_ride_id rq) (rides db) = Some rd \<and>
     r_user_id rd = u_user_id user"
  using assms
  by (auto simp: respond_ride_request_def split: sum.splits option.splits if_splits)

text \<open>
  \<^bold>\<open>C10.\<close> Whether \<^verbatim>\<open>respond_follow_request\<close> and \<^verbatim>\<open>respond_ride_request\<close>
  succeed does not depend on the action: the first succeeds when the caller is
  authenticated and a pending edge with the identifier points at the caller, the second
  when the caller is authenticated, the request is stored and its ride belongs to the
  caller; and a call that succeeds for one action succeeds for every action. The status
  then stored under the identifier, and named in the message, is \<^verbatim>\<open>accepted\<close> for the
  action \<^verbatim>\<open>accept\<close> and \<^verbatim>\<open>rejected\<close> for every other string, the empty one
  included.
\<close>

theorem only_accept_yields_accepted:
  "(\<forall>user f.
      require_auth request now db = Inr user \<and>
      find_one (\<lambda>f. f_follow_id f = follow_id \<and> f_following_id f = u_user_id user \<and>
                    f_status f = ''pending'') (follows db) = Some f \<longrightarrow>
      fst (respond_follow_request follow_id request action now db)
        = Inr (''Follow request '' @ (if action = ''accept'' then ''accepted'' else ''rejected'')) \<and>
      follow_status follow_id (snd (respond_follow_request follow_id request action now db))
        = Some (if action = ''accept'' then ''accepted'' else ''rejected'')) \<and>
   (\<forall>user rq rd.
      require_auth request now db = Inr user \<and>
      find_one (\<lambda>q. q_request_id q = request_id) (ride_requests db) = Some rq \<and>
      find_one (\<lambda>r. r_ride_id r = q_ride_id rq) (rides db) = Some rd \<and>
      r_user_id rd = u_user_id user \<longrightarrow>
      fst (respond_ride_request request_id request action now db)
        = Inr (''Request '' @ (if action = ''accept'' then ''accepted'' else ''rejected'')) \<and>
      request_status request_id (snd (respond_ride_request request_id request action now db))
        = Some (if action = ''accept'' then ''accepted'' else ''rejected'')) \<and>
   (\<forall>other m. fst (respond_follow_request follow_id request other now db) = Inr m \<longrightarrow>
      fst (respond_follow_request follow_id request action now db)
        = Inr (''Follow request '' @ (if action = ''accept'' then ''accepted'' else ''rejected'')) \<and>
      follow_status follow_id (snd (respond_follow_request follow_id request action now db))
        = Some (if action = ''accept'' then ''accepted'' else ''rejected'')) \<and>
   (\<forall>other m. fst (respond_ride_request request_id request other now db) = Inr m \<longrightarrow>
      fst (respond_ride_request request_id request action now db)
        = Inr (''Request '' @ (if action = ''accept'' then ''accepted'' else ''rejected'')) \<and>
      request_status request_id (snd (respond_ride_request request_id request action now db))
        = Some (if action = ''accept'' then ''accepted'' else ''rejected''))"
proof -
  let ?ns = "if action = ''accept'' then ''accepted'' else ''rejected''"
  have follow: "fst (respond_follow_request follow_id request action now db)
        = Inr (''Follow request '' @ ?ns) \<and>
      follow_status follow_id (snd (respond_follow_request follow_id request action now db))
        = Some ?ns"
    if "require_auth request now db = Inr user \<and>
      find_one (\<lambda>f. f_follow_id f = follow_id \<and> f_following_id f = u_user_id user \<and>
                    f_status f = ''pending'') (follows db) = Some f" for user f
  proof -
    from that have auth: "require_auth request now db = Inr user"
      and f: "find_one (\<lambda>f. f_follow_id f = follow_id \<and> f_following_id f = u_user_id user \<and>
                    f_status f = ''pending'') (follows db) = Some f"
      by simp_all
    show ?thesis
      using respond_follow_request_pending [OF auth f, of action]
        respond_follow_request_status [OF auth f, of action]
      by simp
  qed
  have ride: "fst (respond_ride_request request_id request action now db)
        = Inr (''Request '' @ ?ns) \<and>
      request_status request_id (snd (respond_ride_request request_id request action now db))
        = Some ?ns"
    if "require_auth request now db = Inr user \<and>
      find_one (\<lambda>q. q_request_id q = request_id) (ride_requests db) = Some rq \<and>
      find_one (\<lambda>r. r_ride_id r = q_ride_id rq) (rides db) = Some rd \<and>
      r_user_id rd = u_user_id user" for user rq rd
  proof -
    from that have auth: "require_auth request now db = Inr user"
      and rq: "find_one (\<lambda>q. q_request_id q = request_id) (ride_requests db) = Some rq"
      and rd: "find_one (\<lambda>r. r_ride_id r = q_ride_id rq) (rides db) = Some rd"
      and owner: "r_user_id rd = u_user_id user"
      by simp_all
    show ?thesis
      using respond_ride_request_owner [OF auth rq rd owner, of action]
        respond_ride_request_status [OF auth rq rd owner, of action]
      by simp
  qed
  have follow_any: "fst (respond_follow_request follow_id request action now db)
        = Inr (''Follow request '' @ ?ns) \<and>
      follow_status follow_id (snd (respond_follow_request follow_id request action now db))
        = Some ?ns"
    if "fst (respond_follow_request follow_id request other now db) = Inr m" for other m
    using respond_follow_request_success [OF that] follow by blast
  have ride_any: "fst (respond_ride_request request_id request action now db)
        = Inr (''Request '' @ ?ns) \<and>
      request_status request_id (snd (respond_ride_request request_id request action now db))
        = Some ?ns"
    if "fst (respond_ride_request request_id request other now db) = Inr m" for other m
    using respond_ride_request_success [OF that] ride by blast
  from follow ride follow_any ride_any show ?thesis
    by (intro conjI allI impI) blast+
qed

theorem only_accept_yields_accepted_witness:
  "fst (respond_follow_request ''f1'' (with_cookie ''tb'') [] 100 db0)
     = Inr ''Follow request rejected'' \<and>
   follow_status ''f1'' (snd (respond_follow_request ''f1'' (with_cookie ''tb'') [] 100 db0))
     = Some ''rejected'' \<and>
   fst (respond_ride_request ''q1'' (with_cookie ''ta'') ''Accept'' 100 db0)
     = Inr ''Request rejected'' \<and>
   request_status ''q1'' (snd (respond_ride_request ''q1'' (with_cookie ''ta'') ''Accept'' 100 db0))
     = Some ''rejected'' \<and>
   follow_status ''f1'' (snd (respond_follow_request ''f1'' (with_cookie ''tb'') ''reject'' 100 db0))
     = Some ''rejected'' \<and>
   follow_status ''f1'' (snd (respond_follow_request ''f1'' (with_cookie ''tb'') ''accept'' 100 db0))
     = Some ''accepted''"
proof -
  have f: "require_auth (with_cookie ''tb'') 100 db0 = Inr bob \<and>
      find_one (\<lambda>f. f_follow_id f = ''f1'' \<and> f_following_id f = u_user_id bob \<and>
                    f_status f = ''pending'') (follows db0)
        = Some (mk_follow ''f1'' ''cy'' ''bob'' ''pending'')"
    using auth_bob sample_f1 by simp
  have r: "require_auth (with_cookie ''ta'') 100 db0 = Inr ann \<and>
      find_one (\<lambda>q. q_request_id q = ''q1'') (ride_requests db0)
        = Some (mk_req ''q1'' ''r1'' ''bob'' ''pending'') \<and>
      find_one (\<lambda>r. r_ride_id r = q_ride_id (mk_req ''q1'' ''r1'' ''bob'' ''pending'')) (rides db0)
        = Some (mk_ride ''r1'' ''ann'' 3) \<and>
      r_user_id (mk_ride ''r1'' ''ann'' 3) = u_user_id ann"
    using auth_ann sample_q1 sample_r1 by (simp add: ann_def)
  note a = only_accept_yields_accepted
    [where action = "[]" and follow_id = "''f1''" and request = "with_cookie ''tb''"
       and now = 100 and db = db0, THEN conjunct1, rule_format, OF f]
  note b = only_accept_yields_accepted
    [where action = "''Accept''" and request_id = "''q1''" and request = "with_cookie ''ta''"
       and now = 100 and db = db0, THEN conjunct2, THEN conjunct1, rule_format, OF r]
  note c = only_accept_yields_accepted
    [where action = "''reject''" and follow_id = "''f1''" and request = "with_cookie ''tb''"
       and now = 100 and db = db0, THEN conjunct1, rule_format, OF f]
  note d = only_accept_yields_accepted
    [where action = "''accept''" and follow_id = "''f1''" and request = "with_cookie ''tb''"
       and now = 100 and db = db0, THEN conjunct1, rule_format, OF f]
  from a b c d show ?thesis by simp
qed

text \<open>
  \<^bold>\<open>C2.\<close> The request state machine is meant to be one-shot, and the follow edge's
  is: \<^verbatim>\<open>respond_follow_request\<close> looks only for a \<^verbatim>\<open>pending\<close> edge and answers
  404 on an accepted one. \<^verbatim>\<open>respond_ride_request\<close> has no such filter. On the sample
  store the request \<^verbatim>\<open>q3\<close> is already accepted, and the owner's second
  \<^verbatim>\<open>accept\<close> takes one more seat from the ride (3 to 2), while a \<^verbatim>\<open>reject\<close> turns
  the accepted request into a rejected one.
\<close>

theorem respond_ride_request_repeats_on_settled_request:
  "request_status ''q3'' db0 = Some ''accepted'' \<and>
   seats_of ''r1'' db0 = Some 3 \<and>
   fst (respond_ride_request ''q3'' (with_cookie ''ta'') ''accept'' 100 db0)
     = Inr ''Request accepted'' \<and>
   seats_of ''r1'' (snd (respond_ride_request ''q3'' (with_cookie ''ta'') ''accept'' 100 db0))
     = Some 2 \<and>
   request_status ''q3'' (snd (respond_ride_request ''q3'' (with_cookie ''ta'') ''reject'' 100 db0))
     = Some ''rejected'' \<and>
   follow_status ''f3'' db0 = Some ''accepted'' \<and>
   respond_follow_request ''f3'' (with_cookie ''ta'') ''reject'' 100 db0
     = (Inl (HTTPException 404 ''Follow request not found''), db0)"
proof -
  have r1: "find_one (\<lambda>r. r_ride_id r = q_ride_id (mk_req ''q3'' ''r1'' ''cy'' ''accepted''))
      (rides db0) = Some (mk_ride ''r1'' ''ann'' 3)"
    using sample_r1 by simp
  have owner: "r_user_id (mk_ride ''r1'' ''ann'' 3) = u_user_id ann"
    by (simp add: ann_def)
  note ok = respond_ride_request_owner [OF auth_ann sample_q3 r1 owner]
  note st = respond_ride_request_status [OF auth_ann sample_q3 r1 owner]
  note se = respond_ride_request_seats [OF auth_ann sample_q3 r1 owner]
  have 1: "request_status ''q3'' db0 = Some ''accepted''"
    by (simp add: request_status_def sample_q3)
  have 2: "seats_of ''r1'' db0 = Some 3"
    by (simp add: seats_of_def sample_r1)
  have 3: "fst (respond_ride_request ''q3'' (with_cookie ''ta'') ''accept'' 100 db0)
     = Inr ''Request accepted''"
    by (simp add: ok)
  have 4: "seats_of ''r1'' (snd (respond_ride_request ''q3'' (with_cookie ''ta'') ''accept'' 100 db0))
     = Some 2"
    using se [of "''accept''"] by simp
  have 5: "request_status ''q3'' (snd (respond_ride_request ''q3'' (with_cookie ''ta'') ''reject'' 100 db0))
     = Some ''rejected''"
    using st [of "''reject''"] by simp
  have 6: "follow_status ''f3'' db0 = Some ''accepted''"
    by (simp add: follow_status_def find_one_def db0_def mk_follow_def)
  have 7: "respond_follow_request ''f3'' (with_cookie ''ta'') ''reject'' 100 db0
     = (Inl (HTTPException 404 ''Follow request not found''), db0)"
  proof -
    have "find_one (\<lambda>f. f_follow_id f = ''f3'' \<and> f_following_id f = u_user_id ann \<and>
        f_status f = ''pending'') (follows db0) = None"
      by (simp add: find_one_def db0_def mk_follow_def)
    then show ?thesis
      by (simp add: respond_follow_request_def auth_ann)
  qed
  from 1 2 3 4 5 6 7 show ?thesis by blast
qed

section \<open>Viewing a profile\<close>

lemma get_user_view:
  "get_user user_id request now db =
     (case find_one (\<lambda>u. u_user_id u = user_id) (users db) of
        None \<Rightarrow> (Inl (HTTPException 404 ''User not found''), db)
      | Some target \<Rightarrow>
          (case fst (get_current_user request now db) of
             None \<Rightarrow> (Inr (Full target), db)
           | Some viewer \<Rightarrow>
               if \<not> u_is_public target \<and> u_user_id viewer \<noteq> user_id \<and>
                  find_one (\<lambda>f. f_follower_id f = u_user_id viewer \<and>
                       f_following_id f = user_id \<and> f_status f = ''accepted'') (follows db) = None
               then (Inr (Limited
                        \<lparr>lp_user_id = u_user_id target, lp_name = u_name target,
                         lp_profile_picture = u_profile_picture target,
                         lp_profile_type = u_profile_type target,
                         lp_is_public = u_is_public target, lp_is_private = True\<rparr>), db)
               else (Inr (Full target), db)))"
  by (auto simp: get_user_def Let_def split: option.splits)

lemma sample_bob: "find_one (\<lambda>u. u_user_id u = ''bob'') (users db0) = Some bob"
  by (simp add: find_one_def db0_def ann_def bob_def)

lemma viewer_anonymous: "fst (get_current_user anonymous now db) = None"
  by (simp add: get_current_user_token token_of_anonymous)

lemma viewer_cy: "fst (get_current_user (with_cookie ''tc'') 100 db0) = Some cy"
  using auth_cy by (simp add: require_auth_def split: option.splits)

text \<open>
  \<^bold>\<open>C3.\<close> The follow lookup and the limited dictionary of \<^verbatim>\<open>get_user\<close> sit under
  \<^verbatim>\<open>if not user_obj.is_public and current_user\<close>, so a request without a session
  skips them. On the sample store Bob's profile is private: the anonymous request gets
  the whole \<^verbatim>\<open>UserBase\<close>, e-mail and bio included, while Cy, signed in and not an
  accepted follower, gets the six keys of the limited dictionary.
\<close>

theorem get_user_private_profile_to_anonymous:
  "\<not> u_is_public bob \<and>
   get_user ''bob'' anonymous 100 db0 = (Inr (Full bob), db0) \<and>
   u_email bob = Some ''b@x'' \<and> u_bio bob = Some ''bio'' \<and>
   get_user ''bob'' (with_cookie ''tc'') 100 db0 =
     (Inr (Limited \<lparr>lp_user_id = ''bob'', lp_name = ''bob'', lp_profile_picture = None,
                     lp_profile_type = ''passenger'', lp_is_public = False,
                     lp_is_private = True\<rparr>), db0)"
proof -
  have 1: "\<not> u_is_public bob" by (simp add: bob_def)
  have 2: "get_user ''bob'' anonymous 100 db0 = (Inr (Full bob), db0)"
    by (simp add: get_user_def viewer_anonymous sample_bob)
  have 3: "u_email bob = Some ''b@x'' \<and> u_bio bob = Some ''bio''"
    by (simp add: bob_def mk_user_def)
  have nofollow: "find_one (\<lambda>f. f_follower_id f = u_user_id cy \<and> f_following_id f = ''bob'' \<and>
      f_status f = ''accepted'') (follows db0) = None"
    by (simp add: find_one_def db0_def mk_follow_def cy_def)
  have 4: "get_user ''bob'' (with_cookie ''tc'') 100 db0 =
     (Inr (Limited \<lparr>lp_user_id = ''bob'', lp_name = ''bob'', lp_profile_picture = None,
                     lp_profile_type = ''passenger'', lp_is_public = False,
                     lp_is_private = True\<rparr>), db0)"
    using 1 by (simp add: get_user_def viewer_cy sample_bob nofollow Let_def)
      (simp add: cy_def bob_def mk_user_def)
  from 1 2 3 4 show ?thesis by blast
qed

section \<open>Requesting a ride\<close>

text \<open>
  \<^bold>\<open>C6.\<close> For an authenticated caller, \<^verbatim>\<open>request_ride\<close> raises 404 when the ride
  is not stored, 400 when the caller owns it, and 400 (\<^verbatim>\<open>Already requested this ride\<close>)
  when the caller has a request on that ride that is pending or accepted. Otherwise,
  in particular when the caller's earlier requests on the ride are all rejected, it
  appends a new request with status \<^verbatim>\<open>pending\<close> and returns it.
\<close>

theorem request_ride_outcomes:
  assumes auth: "require_auth request now db = Inr user"
  shows
    "(find_one (\<lambda>r. r_ride_id r = rc_ride_id req_data) (rides db) = None \<longrightarrow>
        request_ride request req_data uuid_hex now t_created db
          = (Inl (HTTPException 404 ''Ride not found''), db)) \<and>
     (\<forall>ride. find_one (\<lambda>r. r_ride_id r = rc_ride_id req_data) (rides db) = Some ride \<and>
        r_user_id ride = u_user_id user \<longrightarrow>
        request_ride request req_data uuid_hex now t_created db
          = (Inl (HTTPException 400 ''Cannot request your own ride''), db)) \<and>
     (\<forall>ride q. find_one (\<lambda>r. r_ride_id r = rc_ride_id req_data) (rides db) = Some ride \<and>
        r_user_id ride \<noteq> u_user_id user \<and> q \<in> set (ride_requests db) \<and>
        q_ride_id q = rc_ride_id req_data \<and> q_requester_id q = u_user_id user \<and>
        (q_status q = ''pending'' \<or> q_status q = ''accepted'') \<longrightarrow>
        request_ride request req_data uuid_hex now t_created db
          = (Inl (HTTPException 400 ''Already requested this ride''), db)) \<and>
     (\<forall>ride. find_one (\<lambda>r. r_ride_id r = rc_ride_id req_data) (rides db) = Some ride \<and>
        r_user_id ride \<noteq> u_user_id user \<and>
        (\<forall>q \<in> set (ride_requests db).
           q_ride_id q = rc_ride_id req_data \<and> q_requester_id q = u_user_id user \<longrightarrow>
           q_status q \<noteq> ''pending'' \<and> q_status q \<noteq> ''accepted'') \<longrightarrow>
        request_ride request req_data uuid_hex now t_created db
          = (Inr \<lparr>q_request_id = ''req_'' @ uuid_hex, q_ride_id = rc_ride_id req_data,
                  q_requester_id = u_user_id user, q_status = ''pending'',
                  q_message = rc_message req_data, q_created_at = utc_now t_created\<rparr>,
             db\<lparr>ride_requests := ride_requests db @
                  [\<lparr>q_request_id = ''req_'' @ uuid_hex, q_ride_id = rc_ride_id req_data,
                    q_requester_id = u_user_id user, q_status = ''pending'',
                    q_message = rc_message req_data, q_created_at = utc_now t_created\<rparr>]\<rparr>))"
proof (intro conjI allI impI)
  assume "find_one (\<lambda>r. r_ride_id r = rc_ride_id req_data) (rides db) = None"
  then show "request_ride request req_data uuid_hex now t_created db
          = (Inl (HTTPException 404 ''Ride not found''), db)"
    by (simp add: request_ride_def auth)
next
  fix ride
  assume "find_one (\<lambda>r. r_ride_id r = rc_ride_id req_data) (rides db) = Some ride \<and>
        r_user_id ride = u_user_id user"
  then show "request_ride request req_data uuid_hex now t_created db
          = (Inl (HTTPException 400 ''Cannot request your own ride''), db)"
    by (simp add: request_ride_def auth)
next
  fix ride q
  assume a: "find_one (\<lambda>r. r_ride_id r = rc_ride_id req_data) (rides db) = Some ride \<and>
        r_user_id ride \<noteq> u_user_id user \<and> q \<in> set (ride_requests db) \<and>
        q_ride_id q = rc_ride_id req_data \<and> q_requester_id q = u_user_id user \<and>
        (q_status q = ''pending'' \<or> q_status q = ''accepted'')"
  then have "find_one (\<lambda>q. q_ride_id q = rc_ride_id req_data \<and>
                 q_requester_id q = u_user_id user \<and>
                 q_status q \<in> set [''pending'', ''accepted'']) (ride_requests db) \<noteq> None"
    by (auto simp: find_one_def find_None_iff)
  with a show "request_ride request req_data uuid_hex now t_created db
          = (Inl (HTTPException 400 ''Already requested this ride''), db)"
    by (auto simp: request_ride_def auth)
next
  fix ride
  assume a: "find_one (\<lambda>r. r_ride_id r = rc_ride_id req_data) (rides db) = Some ride \<and>
        r_user_id ride \<noteq> u_user_id user \<and>
        (\<forall>q \<in> set (ride_requests db).
           q_ride_id q = rc_ride_id req_data \<and> q_requester_id q = u_user_id user \<longrightarrow>
           q_status q \<noteq> ''pending'' \<and> q_status q \<noteq> ''accepted'')"
  then have "find_one (\<lambda>q. q_ride_id q = rc_ride_id req_data \<and>
                 q_requester_id q = u_user_id user \<and>
                 q_status q \<in> set [''pending'', ''accepted'']) (ride_requests db) = None"
    by (auto simp: find_one_def find_None_iff)
  with a show "request_ride request req_data uuid_hex now t_created db
          = (Inr \<lparr>q_request_id = ''req_'' @ uuid_hex, q_ride_id = rc_ride_id req_data,
                  q_requester_id = u_user_id user, q_status = ''pending'',
                  q_message = rc_message req_data, q_created_at = utc_now t_created\<rparr>,
             db\<lparr>ride_requests := ride_requests db @
                  [\<lparr>q_request_id = ''req_'' @ uuid_hex, q_ride_id = rc_ride_id req_data,
                    q_requester_id = u_user_id user, q_status = ''pending'',
                    q_message = rc_message req_data, q_created_at = utc_now t_created\<rparr>]\<rparr>)"
    by (simp add: request_ride_def auth Let_def insert_one_def)
qed

theorem request_ride_outcomes_witness:
  "request_ride (with_cookie ''tb'') \<lparr>rc_ride_id = ''rx'', rc_message = None\<rparr> ''0a'' 100 101 db0
     = (Inl (HTTPException 404 ''Ride not found''), db0) \<and>
   request_ride (with_cookie ''ta'') \<lparr>rc_ride_id = ''r1'', rc_message = None\<rparr> ''0a'' 100 101 db0
     = (Inl (HTTPException 400 ''Cannot request your own ride''), db0) \<and>
   request_ride (with_cookie ''tb'') \<lparr>rc_ride_id = ''r1'', rc_message = None\<rparr> ''0a'' 100 101 db0
     = (Inl (HTTPException 400 ''Already requested this ride''), db0) \<and>
   request_status ''q4'' db0 = Some ''rejected'' \<and>
   fst (request_ride (with_cookie ''tc'') \<lparr>rc_ride_id = ''r0'', rc_message = None\<rparr> ''0a'' 100 101 db0)
     = Inr \<lparr>q_request_id = ''req_0a'', q_ride_id = ''r0'', q_requester_id = ''cy'',
            q_status = ''pending'', q_message = None, q_created_at = utc_now 101\<rparr>"
proof -
  have rx: "find_one (\<lambda>r. r_ride_id r = rc_ride_id \<lparr>rc_ride_id = ''rx'', rc_message = None\<rparr>)
      (rides db0) = None"
    by (simp add: find_one_def db0_def mk_ride_def)
  have r1: "find_one (\<lambda>r. r_ride_id r = rc_ride_id \<lparr>rc_ride_id = ''r1'', rc_message = None\<rparr>)
      (rides db0) = Some (mk_ride ''r1'' ''ann'' 3)"
    using sample_r1 by simp
  have r0: "find_one (\<lambda>r. r_ride_id r = rc_ride_id \<lparr>rc_ride_id = ''r0'', rc_message = None\<rparr>)
      (rides db0) = Some (mk_ride ''r0'' ''ann'' 0)"
    using sample_r0 by simp
  have q1: "mk_req ''q1'' ''r1'' ''bob'' ''pending'' \<in> set (ride_requests db0)"
    by (simp add: db0_def)
  have free: "\<forall>q \<in> set (ride_requests db0).
      q_ride_id q = rc_ride_id \<lparr>rc_ride_id = ''r0'', rc_message = None\<rparr> \<and>
      q_requester_id q = u_user_id cy \<longrightarrow>
      q_status q \<noteq> ''pending'' \<and> q_status q \<noteq> ''accepted''"
    by (simp add: db0_def cy_def)
  have q4: "request_status ''q4'' db0 = Some ''rejected''"
    by (simp add: request_status_def find_one_def db0_def)
  note absent = request_ride_outcomes [OF auth_bob, THEN conjunct1, rule_format, OF rx]
  note own = request_ride_outcomes
    [OF auth_ann, THEN conjunct2, THEN conjunct1, rule_format, OF conjI, OF r1]
  note dup = request_ride_outcomes
    [OF auth_bob, THEN conjunct2, THEN conjunct2, THEN conjunct1, rule_format,
      of _ "mk_ride ''r1'' ''ann'' 3" "mk_req ''q1'' ''r1'' ''bob'' ''pending''"]
  note again = request_ride_outcomes
    [OF auth_cy, THEN conjunct2, THEN conjunct2, THEN conjunct2, rule_format,
      where ride = "mk_ride ''r0'' ''ann'' 0"]
  have 1: "request_ride (with_cookie ''tb'') \<lparr>rc_ride_id = ''rx'', rc_message = None\<rparr> ''0a'' 100 101 db0
     = (Inl (HTTPException 404 ''Ride not found''), db0)"
    by (rule absent)
  have 2: "request_ride (with_cookie ''ta'') \<lparr>rc_ride_id = ''r1'', rc_message = None\<rparr> ''0a'' 100 101 db0
     = (Inl (HTTPException 400 ''Cannot request your own ride''), db0)"
    by (rule own) (simp add: ann_def)
  have 3: "request_ride (with_cookie ''tb'') \<lparr>rc_ride_id = ''r1'', rc_message = None\<rparr> ''0a'' 100 101 db0
     = (Inl (HTTPException 400 ''Already requested this ride''), db0)"
    by (rule dup) (simp add: sample_r1 q1 bob_def)
  have 4: "request_ride (with_cookie ''tc'') \<lparr>rc_ride_id = ''r0'', rc_message = None\<rparr> ''0a'' 100 101 db0
     = (Inr \<lparr>q_request_id = ''req_0a'', q_ride_id = ''r0'', q_requester_id = ''cy'',
            q_status = ''pending'', q_message = None, q_created_at = utc_now 101\<rparr>,
        db0\<lparr>ride_requests := ride_requests db0 @
           [\<lparr>q_request_id = ''req_0a'', q_ride_id = ''r0'', q_requester_id = ''cy'',
            q_status = ''pending'', q_message = None, q_created_at = utc_now 101\<rparr>]\<rparr>)"
    using again [where uuid_hex = "''0a''" and t_created = 101
        and req_data = "\<lparr>rc_ride_id = ''r0'', rc_message = None\<rparr>"] sample_r0 free
    by (simp add: cy_def)
  from 1 2 3 4 q4 show ?thesis by simp
qed

section \<open>Password login\<close>

lemma login_unfold:
  "login checkpw credentials new_token t_expires t_created db =
     (case matching_user credentials db of
        None \<Rightarrow> (Inl invalid_credentials, db)
      | Some user \<Rightarrow>
          (case find_one (\<lambda>p. p_user_id p = u_user_id user) (user_passwords db) of
             None \<Rightarrow> (Inl invalid_credentials, db)
           | Some password_doc \<Rightarrow>
               (case checkpw (l_password credentials) (p_password_hash password_doc) of
                  None \<Rightarrow> (Inl (HTTPException 500 ''Internal Server Error''), db)
                | Some verified \<Rightarrow>
                    if \<not> verified then (Inl invalid_credentials, db)
                    else
                      (Inr \<lparr>lr_user_id = u_user_id user, lr_session_token = new_token,
                             lr_name = u_name user\<rparr>,
                       db\<lparr>user_sessions := user_sessions db @
                            [\<lparr>s_user_id = u_user_id user, s_session_token = new_token,
                              s_expires_at = plus_days (utc_now t_expires) 7,
                              s_created_at = utc_now t_created\<rparr>]\<rparr>))))"
  by (simp add: login_def matching_user_def invalid_credentials_def verify_password_def Let_def
      insert_one_def split: option.splits)

text \<open>The three causes of the claim, when \<^verbatim>\<open>bcrypt.checkpw\<close> returns.\<close>

lemma login_invalid_credentials:
  "(matching_user credentials db = None \<longrightarrow>
      login checkpw credentials new_token t_expires t_created db
        = (Inl (HTTPException 401 ''Invalid credentials''), db)) \<and>
   (\<forall>user. matching_user credentials db = Some user \<and>
      find_one (\<lambda>p. p_user_id p = u_user_id user) (user_passwords db) = None \<longrightarrow>
      login checkpw credentials new_token t_expires t_created db
        = (Inl (HTTPException 401 ''Invalid credentials''), db)) \<and>
   (\<forall>user password_doc. matching_user credentials db = Some user \<and>
      find_one (\<lambda>p. p_user_id p = u_user_id user) (user_passwords db) = Some password_doc \<and>
      checkpw (l_password credentials) (p_password_hash password_doc) = Some False \<longrightarrow>
      login checkpw credentials new_token t_expires t_created db
        = (Inl (HTTPException 401 ''Invalid credentials''), db))"
  by (auto simp: login_unfold invalid_credentials_def split: option.splits)

text \<open>The other failure: the exception of \<^verbatim>\<open>verify_password\<close>, met only when the
  account exists and has a stored credential.\<close>

lemma login_internal_error:
  "fst (login checkpw credentials new_token t_expires t_created db)
      = Inl (HTTPException 500 ''Internal Server Error'') \<longleftrightarrow>
   (\<exists>user password_doc. matching_user credentials db = Some user \<and>
      find_one (\<lambda>p. p_user_id p = u_user_id user) (user_passwords db) = Some password_doc \<and>
      checkpw (l_password credentials) (p_password_hash password_doc) = None)"
  by (auto simp: login_unfold invalid_credentials_def split: option.splits)

lemma sample_long_password: "check_sample long_password hashed = None"
  by (simp add: check_sample_def long_password_def)

text \<open>
  \<^bold>\<open>C7.\<close> Both \<^verbatim>\<open>raise\<close> statements of \<^verbatim>\<open>login\<close> carry status 401 and the
  detail \<^verbatim>\<open>Invalid credentials\<close>, and they answer the three causes alike as long as
  \<^verbatim>\<open>verify_password\<close> returns. Its exception is not caught, and it is reached only
  for an account that exists and has a stored credential. On the sample store a
  password of 73 bytes gets 401 for an unknown e-mail and for Cy, who has no password,
  and 500 for Bob, who has one: the answer tells the causes apart.
\<close>

theorem login_error_reveals_stored_credential:
  "length long_password = 73 \<and>
   login check_sample
       \<lparr>l_email = Some ''z@x'', l_phone = None, l_password = long_password\<rparr> ''nt'' 100 101 db0
     = (Inl (HTTPException 401 ''Invalid credentials''), db0) \<and>
   login check_sample
       \<lparr>l_email = Some ''c@x'', l_phone = None, l_password = long_password\<rparr> ''nt'' 100 101 db0
     = (Inl (HTTPException 401 ''Invalid credentials''), db0) \<and>
   login check_sample
       \<lparr>l_email = Some ''b@x'', l_phone = None, l_password = ''no''\<rparr> ''nt'' 100 101 db0
     = (Inl (HTTPException 401 ''Invalid credentials''), db0) \<and>
   login check_sample
       \<lparr>l_email = Some ''b@x'', l_phone = None, l_password = long_password\<rparr> ''nt'' 100 101 db0
     = (Inl (HTTPException 500 ''Internal Server Error''), db0)"
proof -
  have z: "matching_user \<lparr>l_email = Some ''z@x'', l_phone = None, l_password = pw\<rparr> db0 = None"
    for pw
    by (simp add: matching_user_def truthy_def find_one_def sample_defs)
  have c: "matching_user \<lparr>l_email = Some ''c@x'', l_phone = None, l_password = pw\<rparr> db0 = Some cy"
    for pw
    by (simp add: matching_user_def truthy_def find_one_def sample_defs)
  have b: "matching_user \<lparr>l_email = Some ''b@x'', l_phone = None, l_password = pw\<rparr> db0 = Some bob"
    for pw
    by (simp add: matching_user_def truthy_def find_one_def sample_defs)
  have cp: "find_one (\<lambda>p. p_user_id p = u_user_id cy) (user_passwords db0) = None"
    by (simp add: find_one_def db0_def cy_def)
  have bp: "find_one (\<lambda>p. p_user_id p = u_user_id bob) (user_passwords db0)
      = Some \<lparr>p_user_id = ''bob'', p_password_hash = ''h:pw''\<rparr>"
    by (simp add: find_one_def db0_def bob_def)
  have 0: "length long_password = 73"
    by (simp add: long_password_def)
  have 1: "login check_sample
       \<lparr>l_email = Some ''z@x'', l_phone = None, l_password = long_password\<rparr> ''nt'' 100 101 db0
     = (Inl (HTTPException 401 ''Invalid credentials''), db0)"
    by (simp add: login_unfold z invalid_credentials_def)
  have 2: "login check_sample
       \<lparr>l_email = Some ''c@x'', l_phone = None, l_password = long_password\<rparr> ''nt'' 100 101 db0
     = (Inl (HTTPException 401 ''Invalid credentials''), db0)"
    by (simp add: login_unfold c cp invalid_credentials_def)
  have 3: "login check_sample
       \<lparr>l_email = Some ''b@x'', l_phone = None, l_password = ''no''\<rparr> ''nt'' 100 101 db0
     = (Inl (HTTPException 401 ''Invalid credentials''), db0)"
    by (simp add: login_unfold b bp invalid_credentials_def check_sample_def)
  have 4: "login check_sample
       \<lparr>l_email = Some ''b@x'', l_phone = None, l_password = long_password\<rparr> ''nt'' 100 101 db0
     = (Inl (HTTPException 500 ''Internal Server Error''), db0)"
    by (simp add: login_unfold b bp sample_long_password)
  from 0 1 2 3 4 show ?thesis by blast
qed

section \<open>Updating and deleting a ride\<close>

lemma set_fields_ride_id: "r_ride_id (set_fields p r) = r_ride_id r"
  by (simp add: set_fields_def Let_def split: option.splits)

lemma set_fields_empty: "update_dict_empty p \<Longrightarrow> set_fields p r = r"
  by (simp add: set_fields_def update_dict_empty_def)

lemma delete_one_found:
  "find_one P xs = Some x \<Longrightarrow>
     fst (delete_one P xs) = 1 \<and> Suc (length (snd (delete_one P xs))) = length xs"
  by (induction xs) (auto simp: find_one_def split: if_splits prod.splits)

lemma bson_update_Some:
  "bson_update p \<noteq> None \<longleftrightarrow>
     (\<forall>n. ru_available_seats p = Some n \<longrightarrow> fits_int64 n) \<and>
     (\<forall>d. ru_date_time p = Some d \<longrightarrow>
        datetime_min \<le> utc_instant d \<and> utc_instant d \<le> datetime_max)"
  by (auto simp: bson_update_def bson_datetime_def Let_def split: option.splits)

lemma update_ride_owner:
  assumes auth: "require_auth request now db = Inr user"
    and found: "find_one (\<lambda>r. r_ride_id r = ride_id) (rides db) = Some ride"
    and owner: "r_user_id ride = u_user_id user"
  shows "update_ride ride_id request update_data now db =
     (if update_dict_empty update_data then (Inr ride, db)
      else
        (case bson_update update_data of
           None \<Rightarrow> (Inl (HTTPException 500 ''Internal Server Error''), db)
         | Some update_dict \<Rightarrow>
             (Inr (set_fields update_dict ride),
              db\<lparr>rides := update_one (\<lambda>r. r_ride_id r = ride_id)
                             (set_fields update_dict) (rides db)\<rparr>)))"
proof -
  have id: "r_ride_id ride = ride_id"
    using find_one_Some [OF found] by simp
  have upd: "find_one (\<lambda>r. r_ride_id r = ride_id)
        (update_one (\<lambda>r. r_ride_id r = ride_id) (set_fields d) (rides db))
      = Some (set_fields d ride)" for d
    using found id by (intro find_one_update_one) (simp_all add: set_fields_ride_id)
  show ?thesis
    using auth found owner
    by (simp add: update_ride_def Let_def upd split: option.splits)
qed

lemma seats_patch_encoded:
  "\<not> update_dict_empty (seats_patch n)"
  "bson_update (seats_patch n) = (if fits_int64 n then Some (seats_patch n) else None)"
  by (simp_all add: seats_patch_def update_dict_empty_def bson_update_def)

lemma date_patch_encoded:
  "\<not> update_dict_empty (date_patch d)"
  "bson_update (date_patch \<lparr>wall = 7200001234, tzinfo = Some 3600000000\<rparr>)
     = Some (date_patch \<lparr>wall = 3600001000, tzinfo = None\<rparr>)"
  by (simp_all add: date_patch_def update_dict_empty_def bson_update_def bson_datetime_def
      utc_instant_def datetime_min_def datetime_max_def)

text \<open>
  \<^bold>\<open>C8.\<close> For an authenticated caller, \<^verbatim>\<open>update_ride\<close> and \<^verbatim>\<open>delete_ride\<close>
  both raise 404 when the ride is not stored and 403 when its \<^verbatim>\<open>user_id\<close> is not the
  caller's. For the owner the delete succeeds and removes one ride. The owner's update
  succeeds when the patch is empty, and when the driver can encode it (a seat count
  within 64 signed bits, a date that stays within the years 1 to 9999 once moved to
  UTC): it returns the ride with the encoded fields set, which is what the store then
  holds. A patch the driver cannot encode ends in an exception nobody catches, and
  nothing is written.
\<close>

theorem ride_mutation_is_owner_only:
  assumes auth: "require_auth request now db = Inr user"
  shows
    "(find_one (\<lambda>r. r_ride_id r = ride_id) (rides db) = None \<longrightarrow>
        update_ride ride_id request update_data now db
          = (Inl (HTTPException 404 ''Ride not found''), db) \<and>
        delete_ride ride_id request now db
          = (Inl (HTTPException 404 ''Ride not found''), db)) \<and>
     (\<forall>ride. find_one (\<lambda>r. r_ride_id r = ride_id) (rides db) = Some ride \<and>
        r_user_id ride \<noteq> u_user_id user \<longrightarrow>
        update_ride ride_id request update_data now db
          = (Inl (HTTPException 403 ''Not authorized''), db) \<and>
        delete_ride ride_id request now db
          = (Inl (HTTPException 403 ''Not authorized''), db)) \<and>
     (\<forall>ride. find_one (\<lambda>r. r_ride_id r = ride_id) (rides db) = Some ride \<and>
        r_user_id ride = u_user_id user \<longrightarrow>
        fst (delete_ride ride_id request now db) = Inr ''Ride deleted'' \<and>
        rides (snd (delete_ride ride_id request now db))
          = snd (delete_one (\<lambda>r. r_ride_id r = ride_id) (rides db)) \<and>
        Suc (length (rides (snd (delete_ride ride_id request now db)))) = length (rides db) \<and>
        (update_dict_empty update_data \<longrightarrow>
           update_ride ride_id request update_data now db = (Inr ride, db)) \<and>
        (\<forall>update_dict.
           \<not> update_dict_empty update_data \<and> bson_update update_data = Some update_dict \<longrightarrow>
           fst (update_ride ride_id request update_data now db)
             = Inr (set_fields update_dict ride) \<and>
           find_one (\<lambda>r. r_ride_id r = ride_id)
             (rides (snd (update_ride ride_id request update_data now db)))
             = Some (set_fields update_dict ride)) \<and>
        (\<not> update_dict_empty update_data \<and> bson_update update_data = None \<longrightarrow>
           update_ride ride_id request update_data now db
             = (Inl (HTTPException 500 ''Internal Server Error''), db)))"
proof (intro conjI allI impI)
  assume none: "find_one (\<lambda>r. r_ride_id r = ride_id) (rides db) = None"
  show "update_ride ride_id request update_data now db
          = (Inl (HTTPException 404 ''Ride not found''), db)"
    by (simp add: update_ride_def auth none)
  show "delete_ride ride_id request now db = (Inl (HTTPException 404 ''Ride not found''), db)"
    by (simp add: delete_ride_def auth none)
next
  fix ride
  assume other: "find_one (\<lambda>r. r_ride_id r = ride_id) (rides db) = Some ride \<and>
        r_user_id ride \<noteq> u_user_id user"
  show "update_ride ride_id request update_data now db
          = (Inl (HTTPException 403 ''Not authorized''), db)"
    using other by (simp add: update_ride_def auth)
  show "delete_ride ride_id request now db = (Inl (HTTPException 403 ''Not authorized''), db)"
    using other by (simp add: delete_ride_def auth)
next
  fix ride
  assume own: "find_one (\<lambda>r. r_ride_id r = ride_id) (rides db) = Some ride \<and>
        r_user_id ride = u_user_id user"
  then have found: "find_one (\<lambda>r. r_ride_id r = ride_id) (rides db) = Some ride"
    and owner: "r_user_id ride = u_user_id user"
    by simp_all
  note upd = update_ride_owner [OF auth found owner, of update_data]
  have id: "r_ride_id ride = ride_id"
    using find_one_Some [OF found] by simp
  show "fst (delete_ride ride_id request now db) = Inr ''Ride deleted''"
    using found owner by (simp add: delete_ride_def auth Let_def)
  show del: "rides (snd (delete_ride ride_id request now db))
          = snd (delete_one (\<lambda>r. r_ride_id r = ride_id) (rides db))"
    using found owner by (simp add: delete_ride_def auth Let_def)
  show "Suc (length (rides (snd (delete_ride ride_id request now db)))) = length (rides db)"
    using delete_one_found [OF found] by (simp add: del)
  show "update_ride ride_id request update_data now db = (Inr ride, db)"
    if "update_dict_empty update_data"
    using that by (simp add: upd)
  show "update_ride ride_id request update_data now db
             = (Inl (HTTPException 500 ''Internal Server Error''), db)"
    if "\<not> update_dict_empty update_data \<and> bson_update update_data = None"
    using that by (simp add: upd)
  fix update_dict
  assume enc: "\<not> update_dict_empty update_data \<and> bson_update update_data = Some update_dict"
  show "fst (update_ride ride_id request update_data now db) = Inr (set_fields update_dict ride)"
    using enc by (simp add: upd)
  have "find_one (\<lambda>r. r_ride_id r = ride_id)
        (update_one (\<lambda>r. r_ride_id r = ride_id) (set_fields update_dict) (rides db))
      = Some (set_fields update_dict ride)"
    using found id by (intro find_one_update_one) (simp_all add: set_fields_ride_id)
  then show "find_one (\<lambda>r. r_ride_id r = ride_id)
             (rides (snd (update_ride ride_id request update_data now db)))
             = Some (set_fields update_dict ride)"
    using enc by (simp add: upd)
qed

theorem ride_mutation_is_owner_only_witness:
  "update_ride ''rx'' (with_cookie ''ta'') (seats_patch 5) 100 db0
     = (Inl (HTTPException 404 ''Ride not found''), db0) \<and>
   delete_ride ''rx'' (with_cookie ''ta'') 100 db0
     = (Inl (HTTPException 404 ''Ride not found''), db0) \<and>
   update_ride ''r1'' (with_cookie ''tb'') (seats_patch 5) 100 db0
     = (Inl (HTTPException 403 ''Not authorized''), db0) \<and>
   delete_ride ''r1'' (with_cookie ''tb'') 100 db0
     = (Inl (HTTPException 403 ''Not authorized''), db0) \<and>
   fst (update_ride ''r1'' (with_cookie ''ta'') (seats_patch 5) 100 db0)
     = Inr (mk_ride ''r1'' ''ann'' 5) \<and>
   fst (update_ride ''r1'' (with_cookie ''ta'')
          (date_patch \<lparr>wall = 7200001234, tzinfo = Some 3600000000\<rparr>) 100 db0)
     = Inr ((mk_ride ''r1'' ''ann'' 3)\<lparr>r_date_time := \<lparr>wall = 3600001000, tzinfo = None\<rparr>\<rparr>) \<and>
   update_ride ''r1'' (with_cookie ''ta'') (seats_patch (- 9223372036854775809)) 100 db0
     = (Inl (HTTPException 500 ''Internal Server Error''), db0) \<and>
   fst (delete_ride ''r1'' (with_cookie ''ta'') 100 db0) = Inr ''Ride deleted'' \<and>
   rides (snd (delete_ride ''r1'' (with_cookie ''ta'') 100 db0)) = [mk_ride ''r0'' ''ann'' 0]"
proof -
  have rx: "find_one (\<lambda>r. r_ride_id r = ''rx'') (rides db0) = None"
    by (simp add: find_one_def db0_def mk_ride_def)
  have other: "find_one (\<lambda>r. r_ride_id r = ''r1'') (rides db0) = Some (mk_ride ''r1'' ''ann'' 3) \<and>
      r_user_id (mk_ride ''r1'' ''ann'' 3) \<noteq> u_user_id bob"
    by (simp add: sample_r1 bob_def)
  have own: "find_one (\<lambda>r. r_ride_id r = ''r1'') (rides db0) = Some (mk_ride ''r1'' ''ann'' 3) \<and>
      r_user_id (mk_ride ''r1'' ''ann'' 3) = u_user_id ann"
    by (simp add: sample_r1 ann_def)
  have five: "\<not> update_dict_empty (seats_patch 5) \<and> bson_update (seats_patch 5) = Some (seats_patch 5)"
    by (simp add: seats_patch_encoded fits_int64_def)
  have date: "\<not> update_dict_empty (date_patch \<lparr>wall = 7200001234, tzinfo = Some 3600000000\<rparr>) \<and>
      bson_update (date_patch \<lparr>wall = 7200001234, tzinfo = Some 3600000000\<rparr>)
        = Some (date_patch \<lparr>wall = 3600001000, tzinfo = None\<rparr>)"
    by (simp add: date_patch_encoded)
  have small: "\<not> update_dict_empty (seats_patch (- 9223372036854775809)) \<and>
      bson_update (seats_patch (- 9223372036854775809)) = None"
    by (simp add: seats_patch_encoded fits_int64_def)
  have patched: "set_fields (seats_patch 5) (mk_ride ''r1'' ''ann'' 3) = mk_ride ''r1'' ''ann'' 5"
    by (simp add: set_fields_def seats_patch_def mk_ride_def)
  have dated: "set_fields (date_patch \<lparr>wall = 3600001000, tzinfo = None\<rparr>) (mk_ride ''r1'' ''ann'' 3)
      = (mk_ride ''r1'' ''ann'' 3)\<lparr>r_date_time := \<lparr>wall = 3600001000, tzinfo = None\<rparr>\<rparr>"
    by (simp add: set_fields_def date_patch_def)
  have deleted: "snd (delete_one (\<lambda>r. r_ride_id r = ''r1'') (rides db0)) = [mk_ride ''r0'' ''ann'' 0]"
    by (simp add: db0_def)
  note absent = ride_mutation_is_owner_only
    [OF auth_ann, of "''rx''" "seats_patch 5", THEN conjunct1, rule_format, OF rx]
  note forbidden = ride_mutation_is_owner_only
    [OF auth_bob, of "''r1''" "seats_patch 5", THEN conjunct2, THEN conjunct1, rule_format,
      OF other]
  note allowed = ride_mutation_is_owner_only
    [OF auth_ann, of "''r1''", THEN conjunct2, THEN conjunct2, rule_format, OF own]
  note del = allowed [of "seats_patch 5", THEN conjunct1]
    allowed [of "seats_patch 5", THEN conjunct2, THEN conjunct1]
  note enc = allowed
    [THEN conjunct2, THEN conjunct2, THEN conjunct2, THEN conjunct2, THEN conjunct1, rule_format]
  note fail = allowed
    [THEN conjunct2, THEN conjunct2, THEN conjunct2, THEN conjunct2, THEN conjunct2, rule_format]
  from absent forbidden del enc [OF five] enc [OF date] fail [OF small] patched dated deleted
  show ?thesis by simp
qed

text \<open>The owner's update does not always succeed: Ann owns the ride \<^verbatim>\<open>r1\<close>, and
  her patch with a seat count of \<open>2\<^sup>6\<^sup>3\<close> is refused by the driver.\<close>

theorem owner_update_overflow_counterexample:
  "require_auth (with_cookie ''ta'') 100 db0 = Inr ann \<and>
   map r_ride_id (rides db0) = [''r1'', ''r0''] \<and>
   map r_user_id (rides db0) = [u_user_id ann, u_user_id ann] \<and>
   update_ride ''r1'' (with_cookie ''ta'') (seats_patch 9223372036854775808) 100 db0
     = (Inl (HTTPException 500 ''Internal Server Error''), db0)"
proof -
  have own: "r_user_id (mk_ride ''r1'' ''ann'' 3) = u_user_id ann"
    by (simp add: ann_def)
  have big: "\<not> fits_int64 9223372036854775808"
    by (simp add: fits_int64_def)
  have 1: "map r_ride_id (rides db0) = [''r1'', ''r0'']"
    by (simp add: db0_def)
  have 2: "map r_user_id (rides db0) = [u_user_id ann, u_user_id ann]"
    by (simp add: db0_def ann_def)
  have 3: "update_ride ''r1'' (with_cookie ''ta'') (seats_patch 9223372036854775808) 100 db0
     = (Inl (HTTPException 500 ''Internal Server Error''), db0)"
    using big by (simp add: update_ride_owner [OF auth_ann sample_r1 own] seats_patch_encoded)
  from auth_ann 1 2 3 show ?thesis by simp
qed

section \<open>Following a user\<close>

lemma find_one_filter: "find_one P xs = None \<longleftrightarrow> filter P xs = []"
  by (auto simp: find_one_def find_None_iff filter_empty_conv)

lemma find_one_append_new:
  "find_one P xs = None \<Longrightarrow> P d \<Longrightarrow> find_one P (xs @ [d]) = Some d"
  by (induction xs) (auto simp: find_one_def split: if_splits)

lemma filter_delete_one: "filter P (snd (delete_one P xs)) = tl (filter P xs)"
  by (induction xs) (auto split: prod.splits)

lemma fst_delete_one: "fst (delete_one P xs) = (if filter P xs = [] then 0 else 1)"
  by (induction xs) (auto split: prod.splits)

lemma update_one_others:
  "find_one P xs = Some x \<Longrightarrow> y \<in> set xs \<Longrightarrow> y \<noteq> x \<Longrightarrow> y \<in> set (update_one P f xs)"
  by (induction xs) (auto simp: find_one_def split: if_splits)

lemma distinct_key_eq:
  "distinct (map k xs) \<Longrightarrow> x \<in> set xs \<Longrightarrow> y \<in> set xs \<Longrightarrow> k x = k y \<Longrightarrow> x = y"
  by (auto simp: distinct_map dest: inj_onD)

lemma follow_user_existing:
  assumes "require_auth request now db = Inr user"
    and "u_user_id user \<noteq> following_id"
    and "find_one (\<lambda>u. u_user_id u = following_id) (users db) = Some target"
    and "find_one (\<lambda>f. f_follower_id f = u_user_id user \<and> f_following_id f = following_id)
           (follows db) = Some e"
  shows "follow_user request following_id uuid_hex now t_created db =
     (Inr \<lparr>fr_message = ''Already following or request pending'', fr_status = f_status e\<rparr>, db)"
  using assms by (simp add: follow_user_def)

lemma follow_user_new:
  assumes "require_auth request now db = Inr user"
    and "u_user_id user \<noteq> following_id"
    and "find_one (\<lambda>u. u_user_id u = following_id) (users db) = Some target"
    and "find_one (\<lambda>f. f_follower_id f = u_user_id user \<and> f_following_id f = following_id)
           (follows db) = None"
  shows "follow_user request following_id uuid_hex now t_created db =
     (Inr \<lparr>fr_message = (if u_is_public target then ''Now following'' else ''Follow request sent''),
           fr_status = (if u_is_public target then ''accepted'' else ''pending'')\<rparr>,
      db\<lparr>follows := follows db @
           [\<lparr>f_follow_id = ''follow_'' @ uuid_hex, f_follower_id = u_user_id user,
             f_following_id = following_id,
             f_status = (if u_is_public target then ''accepted'' else ''pending''),
             f_created_at = utc_now t_created\<rparr>]\<rparr>)"
  using assms by (simp add: follow_user_def Let_def insert_one_def)

lemma follow_user_appends:
  "follows (snd (follow_user request following_id uuid_hex now t_created db)) = follows db \<or>
   (\<exists>d. follows (snd (follow_user request following_id uuid_hex now t_created db))
      = follows db @ [d])"
  by (auto simp: follow_user_def Let_def insert_one_def split: sum.splits option.splits)

lemma unfollow_user_single:
  assumes auth: "require_auth request now db = Inr user"
    and one: "edges (u_user_id user) user_id db = [e]"
  shows "fst (unfollow_user user_id request now db) = Inr ''Unfollowed'' \<and>
         edges (u_user_id user) user_id (snd (unfollow_user user_id request now db)) = [] \<and>
         users (snd (unfollow_user user_id request now db)) = users db \<and>
         user_sessions (snd (unfollow_user user_id request now db)) = user_sessions db"
proof -
  let ?P = "\<lambda>f. f_follower_id f = u_user_id user \<and> f_following_id f = user_id"
  obtain n ys where d: "delete_one ?P (follows db) = (n, ys)"
    by (cases "delete_one ?P (follows db)")
  from fst_delete_one [of ?P "follows db"] one d have n: "n = 1"
    by (simp add: edges_def)
  from filter_delete_one [of ?P "follows db"] one d have ys: "filter ?P ys = []"
    by (simp add: edges_def)
  show ?thesis
    using auth d n ys by (simp add: unfollow_user_def edges_def)
qed

lemma respond_follow_request_keeps_settled:
  assumes ids: "distinct (map f_follow_id (follows db))"
    and e: "e \<in> set (follows db)"
    and settled: "f_status e \<noteq> ''pending''"
  shows "e \<in> set (follows (snd (respond_follow_request follow_id request action now db)))"
proof (cases "fst (respond_follow_request follow_id request action now db)")
  case (Inl err)
  then have "snd (respond_follow_request follow_id request action now db) = db"
    by (auto simp: respond_follow_request_def Let_def split: sum.splits option.splits)
  with e show ?thesis by simp
next
  case (Inr m)
  then obtain user f where
    auth: "require_auth request now db = Inr user" and
    f: "find_one (\<lambda>f. f_follow_id f = follow_id \<and> f_following_id f = u_user_id user \<and>
                     f_status f = ''pending'') (follows db) = Some f"
    by (auto simp: respond_follow_request_def split: sum.splits option.splits)
  from find_one_Some [OF f] have fin: "f \<in> set (follows db)" and fid: "f_follow_id f = follow_id"
    and fp: "f_status f = ''pending''"
    by simp_all
  then obtain g where g: "find_one (\<lambda>f. f_follow_id f = follow_id) (follows db) = Some g"
    by (cases "find_one (\<lambda>f. f_follow_id f = follow_id) (follows db)")
      (auto simp: find_one_None)
  from find_one_Some [OF g] have "g \<in> set (follows db)" "f_follow_id g = follow_id"
    by simp_all
  with ids fin fid have "g = f"
    by (auto intro: distinct_key_eq [where k = f_follow_id])
  with fp settled have "e \<noteq> g" by auto
  from update_one_others [OF g e this]
  show ?thesis
    using auth f by (simp add: respond_follow_request_def Let_def)
qed

lemma sample_ann: "find_one (\<lambda>u. u_user_id u = ''ann'') (users db0) = Some ann"
  by (simp add: find_one_def db0_def ann_def)

text \<open>
  \<^bold>\<open>C4.\<close> Take a caller who is authenticated (at both calls) and a stored target
  other than the caller, so that \<^verbatim>\<open>follow_user\<close> reaches its edge lookup. When an edge
  from the caller to the target exists, with any status, the call returns that status and
  leaves the store as it is. Two calls in a row return the same status and the second
  changes nothing; a call adds an edge only when there was none. A rejected edge is
  answered with \<^verbatim>\<open>rejected\<close> and stays. After \<^verbatim>\<open>unfollow_user\<close> removed the only
  edge, a new call creates one, \<^verbatim>\<open>accepted\<close> for a public target and \<^verbatim>\<open>pending\<close>
  otherwise. \<^verbatim>\<open>respond_follow_request\<close>, by anyone, leaves a rejected edge in place
  when follow identifiers are distinct.
\<close>

theorem follow_is_idempotent:
  assumes auth: "require_auth request now db = Inr user"
    and auth2: "require_auth request now2 db = Inr user"
    and neq: "u_user_id user \<noteq> following_id"
    and target: "find_one (\<lambda>u. u_user_id u = following_id) (users db) = Some target"
  shows
    "(\<forall>e. find_one (\<lambda>f. f_follower_id f = u_user_id user \<and> f_following_id f = following_id)
            (follows db) = Some e \<longrightarrow>
        follow_user request following_id uuid_hex now t_created db =
          (Inr \<lparr>fr_message = ''Already following or request pending'',
                fr_status = f_status e\<rparr>, db)) \<and>
     (\<exists>s m1 m2.
        fst (follow_user request following_id uuid_hex now t_created db)
          = Inr \<lparr>fr_message = m1, fr_status = s\<rparr> \<and>
        follow_user request following_id uuid_hex2 now2 t_created2
            (snd (follow_user request following_id uuid_hex now t_created db))
          = (Inr \<lparr>fr_message = m2, fr_status = s\<rparr>,
             snd (follow_user request following_id uuid_hex now t_created db))) \<and>
     length (edges (u_user_id user) following_id
               (snd (follow_user request following_id uuid_hex now t_created db)))
       = (if edges (u_user_id user) following_id db = [] then 1
          else length (edges (u_user_id user) following_id db)) \<and>
     (\<forall>e. find_one (\<lambda>f. f_follower_id f = u_user_id user \<and> f_following_id f = following_id)
            (follows db) = Some e \<and> f_status e = ''rejected'' \<longrightarrow>
        follow_user request following_id uuid_hex now t_created db =
          (Inr \<lparr>fr_message = ''Already following or request pending'',
                fr_status = ''rejected''\<rparr>, db)) \<and>
     (\<forall>e. edges (u_user_id user) following_id db = [e] \<longrightarrow>
        fst (unfollow_user following_id request now db) = Inr ''Unfollowed'' \<and>
        edges (u_user_id user) following_id (snd (unfollow_user following_id request now db))
          = [] \<and>
        fst (follow_user request following_id uuid_hex now2 t_created
               (snd (unfollow_user following_id request now db)))
          = Inr \<lparr>fr_message =
                   (if u_is_public target then ''Now following'' else ''Follow request sent''),
                 fr_status = (if u_is_public target then ''accepted'' else ''pending'')\<rparr>) \<and>
     (\<forall>e request' follow_id action now'.
        distinct (map f_follow_id (follows db)) \<and> e \<in> set (follows db) \<and>
        f_status e = ''rejected'' \<longrightarrow>
        e \<in> set (follows (snd (respond_follow_request follow_id request' action now' db))))"
proof -
  let ?edge = "\<lambda>f. f_follower_id f = u_user_id user \<and> f_following_id f = following_id"
  let ?call = "follow_user request following_id uuid_hex now t_created db"
  have existing: "follow_user request following_id uuid_hex now t_created db =
          (Inr \<lparr>fr_message = ''Already following or request pending'',
                fr_status = f_status e\<rparr>, db)"
    if "find_one ?edge (follows db) = Some e" for e
    using follow_user_existing [OF auth neq target that] .
  have twice: "\<exists>s m1 m2.
        fst ?call = Inr \<lparr>fr_message = m1, fr_status = s\<rparr> \<and>
        follow_user request following_id uuid_hex2 now2 t_created2 (snd ?call)
          = (Inr \<lparr>fr_message = m2, fr_status = s\<rparr>, snd ?call)"
  proof (cases "find_one ?edge (follows db)")
    case (Some e)
    from follow_user_existing [OF auth neq target Some]
      follow_user_existing [OF auth2 neq target Some]
    show ?thesis by simp
  next
    case None
    let ?st = "if u_is_public target then ''accepted'' else ''pending''"
    let ?new = "\<lparr>f_follow_id = ''follow_'' @ uuid_hex, f_follower_id = u_user_id user,
             f_following_id = following_id, f_status = ?st,
             f_created_at = utc_now t_created\<rparr>"
    let ?db1 = "db\<lparr>follows := follows db @ [?new]\<rparr>"
    note first = follow_user_new [OF auth neq target None, of uuid_hex t_created]
    have "require_auth request now2 ?db1 = require_auth request now2 db"
      by (rule require_auth_users_sessions) simp_all
    from this auth2 have a: "require_auth request now2 ?db1 = Inr user"
      by (rule trans)
    have t: "find_one (\<lambda>u. u_user_id u = following_id) (users ?db1) = Some target"
      using target by simp
    have e: "find_one ?edge (follows ?db1) = Some ?new"
      using find_one_append_new [OF None, of ?new] by simp
    from follow_user_existing [OF a neq t e, of uuid_hex2 t_created2]
    have "follow_user request following_id uuid_hex2 now2 t_created2 ?db1 =
        (Inr \<lparr>fr_message = ''Already following or request pending'', fr_status = ?st\<rparr>, ?db1)"
      by simp
    with first show ?thesis by simp
  qed
  have count: "length (edges (u_user_id user) following_id (snd ?call))
       = (if edges (u_user_id user) following_id db = [] then 1
          else length (edges (u_user_id user) following_id db))"
  proof (cases "find_one ?edge (follows db)")
    case (Some e)
    then have "edges (u_user_id user) following_id db \<noteq> []"
      using find_one_filter [of ?edge "follows db"] by (simp add: edges_def)
    with follow_user_existing [OF auth neq target Some, of uuid_hex t_created]
    show ?thesis by simp
  next
    case None
    then have "edges (u_user_id user) following_id db = []"
      using find_one_filter [of ?edge "follows db"] by (simp add: edges_def)
    with follow_user_new [OF auth neq target None, of uuid_hex t_created]
    show ?thesis by (simp add: edges_def)
  qed
  have rejected: "follow_user request following_id uuid_hex now t_created db =
          (Inr \<lparr>fr_message = ''Already following or request pending'',
                fr_status = ''rejected''\<rparr>, db)"
    if "find_one ?edge (follows db) = Some e \<and> f_status e = ''rejected''" for e
    using that existing [of e] by simp
  have reset: "fst (unfollow_user following_id request now db) = Inr ''Unfollowed'' \<and>
        edges (u_user_id user) following_id (snd (unfollow_user following_id request now db))
          = [] \<and>
        fst (follow_user request following_id uuid_hex now2 t_created
               (snd (unfollow_user following_id request now db)))
          = Inr \<lparr>fr_message =
                   (if u_is_public target then ''Now following'' else ''Follow request sent''),
                 fr_status = (if u_is_public target then ''accepted'' else ''pending'')\<rparr>"
    if one: "edges (u_user_id user) following_id db = [e]" for e
  proof -
    let ?db1 = "snd (unfollow_user following_id request now db)"
    note u = unfollow_user_single [OF auth one]
    from u have "require_auth request now2 ?db1 = require_auth request now2 db"
      by (intro require_auth_users_sessions) simp_all
    from this auth2 have a: "require_auth request now2 ?db1 = Inr user"
      by (rule trans)
    from u have t: "find_one (\<lambda>u. u_user_id u = following_id) (users ?db1) = Some target"
      using target by simp
    from u have n: "find_one ?edge (follows ?db1) = None"
      using find_one_filter [of ?edge "follows ?db1"] by (simp add: edges_def)
    from follow_user_new [OF a neq t n, of uuid_hex t_created] u
    show ?thesis by simp
  qed
  have settled: "e \<in> set (follows (snd (respond_follow_request follow_id request' action now' db)))"
    if "distinct (map f_follow_id (follows db)) \<and> e \<in> set (follows db) \<and>
        f_status e = ''rejected''" for e request' follow_id action now'
    using that by (intro respond_follow_request_keeps_settled) simp_all
  from existing twice count rejected reset settled show ?thesis
    by (intro conjI allI impI) blast+
qed

theorem follow_is_idempotent_witness:
  "follow_user (with_cookie ''ta'') ''bob'' ''0b'' 100 101 db0
     = (Inr \<lparr>fr_message = ''Already following or request pending'',
             fr_status = ''rejected''\<rparr>, db0) \<and>
   edges ''cy'' ''ann'' db0 = [] \<and>
   length (edges ''cy'' ''ann'' (snd (follow_user (with_cookie ''tc'') ''ann'' ''0b'' 100 101 db0)))
     = 1 \<and>
   fst (unfollow_user ''bob'' (with_cookie ''ta'') 100 db0) = Inr ''Unfollowed'' \<and>
   fst (follow_user (with_cookie ''ta'') ''bob'' ''0b'' 100 101
          (snd (unfollow_user ''bob'' (with_cookie ''ta'') 100 db0)))
     = Inr \<lparr>fr_message = ''Follow request sent'', fr_status = ''pending''\<rparr> \<and>
   mk_follow ''f2'' ''ann'' ''bob'' ''rejected''
     \<in> set (follows (snd (respond_follow_request ''f1'' (with_cookie ''tb'') ''accept'' 100 db0)))"
proof -
  have neq_ab: "u_user_id ann \<noteq> ''bob''" by (simp add: ann_def)
  have neq_ca: "u_user_id cy \<noteq> ''ann''" by (simp add: cy_def)
  have f2: "find_one (\<lambda>f. f_follower_id f = u_user_id ann \<and> f_following_id f = ''bob'')
      (follows db0) = Some (mk_follow ''f2'' ''ann'' ''bob'' ''rejected'')"
    by (simp add: find_one_def db0_def mk_follow_def ann_def)
  have one: "edges (u_user_id ann) ''bob'' db0 = [mk_follow ''f2'' ''ann'' ''bob'' ''rejected'']"
    by (simp add: edges_def db0_def mk_follow_def ann_def)
  have none: "edges (u_user_id cy) ''ann'' db0 = []"
    by (simp add: edges_def db0_def mk_follow_def cy_def)
  have ids: "distinct (map f_follow_id (follows db0)) \<and>
      mk_follow ''f2'' ''ann'' ''bob'' ''rejected'' \<in> set (follows db0) \<and>
      f_status (mk_follow ''f2'' ''ann'' ''bob'' ''rejected'') = ''rejected''"
    by (simp add: db0_def mk_follow_def)
  note ab = follow_is_idempotent [OF auth_ann auth_ann neq_ab sample_bob,
      where uuid_hex = "''0b''" and t_created = 101]
  note ca = follow_is_idempotent [OF auth_cy auth_cy neq_ca sample_ann,
      where uuid_hex = "''0b''" and t_created = 101]
  have 1: "follow_user (with_cookie ''ta'') ''bob'' ''0b'' 100 101 db0
     = (Inr \<lparr>fr_message = ''Already following or request pending'',
             fr_status = ''rejected''\<rparr>, db0)"
    using ab [THEN conjunct1, rule_format, OF f2] by (simp add: mk_follow_def)
  have 2: "length (edges ''cy'' ''ann''
      (snd (follow_user (with_cookie ''tc'') ''ann'' ''0b'' 100 101 db0))) = 1"
    using ca [THEN conjunct2, THEN conjunct2, THEN conjunct1] none by (simp add: cy_def)
  have 3: "fst (unfollow_user ''bob'' (with_cookie ''ta'') 100 db0) = Inr ''Unfollowed'' \<and>
    fst (follow_user (with_cookie ''ta'') ''bob'' ''0b'' 100 101
          (snd (unfollow_user ''bob'' (with_cookie ''ta'') 100 db0)))
     = Inr \<lparr>fr_message = ''Follow request sent'', fr_status = ''pending''\<rparr>"
    using ab [THEN conjunct2, THEN conjunct2, THEN conjunct2, THEN conjunct2, THEN conjunct1,
        rule_format, OF one]
    by (simp add: bob_def)
  have 4: "mk_follow ''f2'' ''ann'' ''bob'' ''rejected''
     \<in> set (follows (snd (respond_follow_request ''f1'' (with_cookie ''tb'') ''accept'' 100 db0)))"
    by (rule ab [THEN conjunct2, THEN conjunct2, THEN conjunct2, THEN conjunct2, THEN conjunct2,
        rule_format, OF ids])
  from 1 2 3 4 none show ?thesis by (simp add: cy_def)
qed

end
